theory Spec2Isabelle
  imports Complex_Main
begin

section \<open>JavaScript numbers\<close>

text \<open>
  The library computes on JavaScript numbers. A number is modelled as a finite real,
  one of the two infinities, or NaN. Finite arithmetic is exact real arithmetic: the
  rounding, overflow and underflow of IEEE doubles are not modelled, and the two
  signed zeros are identified (a zero divisor behaves as \<open>+0\<close>). Comparisons with
  NaN are false, as in the language.
\<close>

datatype jsnum = Fin real | PInf | NInf | NaN

fun js_neg :: "jsnum \<Rightarrow> jsnum" where
  "js_neg (Fin x) = Fin (- x)"
| "js_neg PInf = NInf"
| "js_neg NInf = PInf"
| "js_neg NaN = NaN"

fun js_add :: "jsnum \<Rightarrow> jsnum \<Rightarrow> jsnum" where
  "js_add NaN _ = NaN"
| "js_add _ NaN = NaN"
| "js_add (Fin x) (Fin y) = Fin (x + y)"
| "js_add PInf NInf = NaN"
| "js_add NInf PInf = NaN"
| "js_add PInf _ = PInf"
| "js_add _ PInf = PInf"
| "js_add NInf _ = NInf"
| "js_add _ NInf = NInf"

definition js_sub :: "jsnum \<Rightarrow> jsnum \<Rightarrow> jsnum" where
  "js_sub a b = js_add a (js_neg b)"

fun js_mul :: "jsnum \<Rightarrow> jsnum \<Rightarrow> jsnum" where
  "js_mul NaN _ = NaN"
| "js_mul _ NaN = NaN"
| "js_mul (Fin x) (Fin y) = Fin (x * y)"
| "js_mul (Fin x) PInf = (if x = 0 then NaN else if 0 < x then PInf else NInf)"
| "js_mul (Fin x) NInf = (if x = 0 then NaN else if 0 < x then NInf else PInf)"
| "js_mul PInf (Fin y) = (if y = 0 then NaN else if 0 < y then PInf else NInf)"
| "js_mul NInf (Fin y) = (if y = 0 then NaN else if 0 < y then NInf else PInf)"
| "js_mul PInf PInf = PInf"
| "js_mul NInf NInf = PInf"
| "js_mul PInf NInf = NInf"
| "js_mul NInf PInf = NInf"

fun js_div :: "jsnum \<Rightarrow> jsnum \<Rightarrow> jsnum" where
  "js_div NaN _ = NaN"
| "js_div _ NaN = NaN"
| "js_div (Fin x) (Fin y) =
     (if y \<noteq> 0 then Fin (x / y)
      else if x = 0 then NaN else if 0 < x then PInf else NInf)"
| "js_div (Fin x) PInf = Fin 0"
| "js_div (Fin x) NInf = Fin 0"
| "js_div PInf (Fin y) = (if 0 \<le> y then PInf else NInf)"
| "js_div NInf (Fin y) = (if 0 \<le> y then NInf else PInf)"
| "js_div _ _ = NaN"

fun js_lt :: "jsnum \<Rightarrow> jsnum \<Rightarrow> bool" where
  "js_lt NaN _ = False"
| "js_lt _ NaN = False"
| "js_lt (Fin x) (Fin y) = (x < y)"
| "js_lt _ NInf = False"
| "js_lt NInf _ = True"
| "js_lt PInf _ = False"
| "js_lt _ PInf = True"

fun js_le :: "jsnum \<Rightarrow> jsnum \<Rightarrow> bool" where
  "js_le NaN _ = False"
| "js_le _ NaN = False"
| "js_le (Fin x) (Fin y) = (x \<le> y)"
| "js_le NInf _ = True"
| "js_le _ PInf = True"
| "js_le _ _ = False"

definition js_ge :: "jsnum \<Rightarrow> jsnum \<Rightarrow> bool" where
  "js_ge a b = js_le b a"

text \<open>\<open>Math.exp\<close>, \<open>Math.log\<close>, \<open>Math.min\<close> of two arguments, \<open>Math.LN2\<close>.\<close>

fun js_exp :: "jsnum \<Rightarrow> jsnum" where
  "js_exp (Fin x) = Fin (exp x)"
| "js_exp PInf = PInf"
| "js_exp NInf = Fin 0"
| "js_exp NaN = NaN"

fun js_log :: "jsnum \<Rightarrow> jsnum" where
  "js_log (Fin x) = (if 0 < x then Fin (ln x) else if x = 0 then NInf else NaN)"
| "js_log PInf = PInf"
| "js_log NInf = NaN"
| "js_log NaN = NaN"

definition js_min :: "jsnum \<Rightarrow> jsnum \<Rightarrow> jsnum" where
  "js_min a b = (if a = NaN \<or> b = NaN then NaN else if js_le a b then a else b)"

definition LN2 :: jsnum where
  "LN2 = Fin (ln 2)"

text \<open>Truthiness of a number: \<open>0\<close> and NaN are falsy.\<close>

definition truthy_num :: "jsnum \<Rightarrow> bool" where
  "truthy_num n = (n \<noteq> Fin 0 \<and> n \<noteq> NaN)"

section \<open>Errors\<close>

text \<open>
  Every failure of the source is \<open>throw new Error(message)\<close>. The model keeps the
  message; the constructor records the class of the error taxonomy the throw site
  belongs to: the lookup miss of \<open>addBySource\<close> is \<open>UnknownSource\<close>, every
  rejected numeric argument is \<open>InvalidArgument\<close>.
\<close>

datatype error = InvalidArgument string | UnknownSource string

section \<open>ForgeCalculator\<close>

definition calculate :: "jsnum \<Rightarrow> jsnum \<Rightarrow> jsnum \<Rightarrow> error + jsnum" where
  "calculate initial rate time =
     (if js_lt initial (Fin 0) then Inl (InvalidArgument ''Initial value cannot be negative'')
      else if js_lt rate (Fin 0) then Inl (InvalidArgument ''Rate constant cannot be negative'')
      else if js_lt time (Fin 0) then Inl (InvalidArgument ''Time cannot be negative'')
      else Inr (js_mul initial (js_exp (js_mul (js_neg rate) time))))"

definition rateToHalfLife :: "jsnum \<Rightarrow> error + jsnum" where
  "rateToHalfLife rate =
     (if js_le rate (Fin 0) then Inl (InvalidArgument ''Rate constant must be positive'')
      else Inr (js_div LN2 rate))"

definition halfLifeToRate :: "jsnum \<Rightarrow> error + jsnum" where
  "halfLifeToRate halfLife =
     (if js_le halfLife (Fin 0) then Inl (InvalidArgument ''Half-life must be positive'')
      else Inr (js_div LN2 halfLife))"

definition timeToReach :: "jsnum \<Rightarrow> jsnum \<Rightarrow> jsnum \<Rightarrow> error + jsnum" where
  "timeToReach initial target rate =
     (if js_ge target initial then Inr (Fin 0)
      else if js_le target (Fin 0) then Inr PInf
      else if js_le rate (Fin 0) then Inl (InvalidArgument ''Rate constant must be positive'')
      else Inr (js_div (js_log (js_div initial target)) rate))"

text \<open>
  One sample of \<open>generateCurve\<close>: the object \<open>{time, value, percent, halfLives}\<close>.
\<close>

record point =
  pt_time :: jsnum
  pt_value :: jsnum
  pt_percent :: jsnum
  pt_halfLives :: jsnum

text \<open>
  The \<open>for (let i = 0; i <= steps; i++)\<close> loop of \<open>generateCurve\<close>, with the array
  \<open>data\<close> built so far. \<open>steps\<close> is an integer count (its default, 100, is left
  to the caller). Within one iteration
  \<open>calculate\<close> is called first and \<open>rateToHalfLife\<close> second; the first throw ends
  the call.
\<close>

function generateCurve_loop ::
  "jsnum \<Rightarrow> jsnum \<Rightarrow> jsnum \<Rightarrow> int \<Rightarrow> int \<Rightarrow> point list \<Rightarrow> error + point list" where
  "generateCurve_loop initial rate dt steps i data =
     (if i \<le> steps then
        (let time = js_mul (Fin (of_int i)) dt in
         case calculate initial rate time of
           Inl e \<Rightarrow> Inl e
         | Inr val \<Rightarrow>
             (let percent = js_mul (js_div val initial) (Fin 100) in
              case rateToHalfLife rate of
                Inl e \<Rightarrow> Inl e
              | Inr hl \<Rightarrow>
                  generateCurve_loop initial rate dt steps (i + 1)
                    (data @ [\<lparr>pt_time = time, pt_value = val, pt_percent = percent,
                              pt_halfLives = js_div time hl\<rparr>])))
      else Inr data)"
  by pat_completeness auto
termination
  by (relation "measure (\<lambda>(initial, rate, dt, steps, i, data). nat (steps + 1 - i))") auto

definition generateCurve :: "jsnum \<Rightarrow> jsnum \<Rightarrow> jsnum \<Rightarrow> int \<Rightarrow> error + point list" where
  "generateCurve initial rate duration steps =
     (let dt = js_div duration (Fin (of_int steps))
      in generateCurve_loop initial rate dt steps 0 [])"

section \<open>Dates\<close>

text \<open>
  A \<open>Date\<close> holds a time value: an integral number of milliseconds, or NaN for an
  invalid date. \<open>new Date(v)\<close> on a number clips it: a non-finite value, or one beyond
  \<open>8.64e15\<close> in magnitude, gives an invalid date; any other value is truncated
  towards zero.
\<close>

datatype jsdate = Date int | InvalidDate

fun getTime :: "jsdate \<Rightarrow> jsnum" where
  "getTime (Date ms) = Fin (of_int ms)"
| "getTime InvalidDate = NaN"

fun new_Date :: "jsnum \<Rightarrow> jsdate" where
  "new_Date (Fin x) =
     (if \<bar>x\<bar> \<le> 8640000000000000
      then Date (if 0 \<le> x then \<lfloor>x\<rfloor> else \<lceil>x\<rceil>) else InvalidDate)"
| "new_Date _ = InvalidDate"

text \<open>
  A time argument is a \<open>Date\<close> or a number of milliseconds:
  \<open>time instanceof Date ? time : new Date(time)\<close>.
\<close>

datatype timearg = ADate jsdate | ANumber jsnum

fun to_Date :: "timearg \<Rightarrow> jsdate" where
  "to_Date (ADate d) = d"
| "to_Date (ANumber n) = new_Date n"

section \<open>CaffeineForge\<close>

subsection \<open>Constants\<close>

definition HALF_LIFE_TYPICAL :: jsnum where "HALF_LIFE_TYPICAL = Fin 5"
definition HALF_LIFE_MIN :: jsnum where "HALF_LIFE_MIN = Fin 2"
definition HALF_LIFE_MAX :: jsnum where "HALF_LIFE_MAX = Fin 10"
definition RATE_TYPICAL :: jsnum where "RATE_TYPICAL = Fin (1386 / 10000)"
definition RATE_FAST :: jsnum where "RATE_FAST = Fin (3466 / 10000)"
definition RATE_SLOW :: jsnum where "RATE_SLOW = Fin (693 / 10000)"
definition VD_PER_KG :: jsnum where "VD_PER_KG = Fin (6 / 10)"
definition THRESHOLD_SLEEP :: jsnum where "THRESHOLD_SLEEP = Fin 10"

text \<open>
  \<open>CONSTANTS.SOURCES\<close> is an object literal. Reading \<open>SOURCES[key]\<close> finds the
  object's own properties first and then the properties every object inherits from
  \<open>Object.prototype\<close>, whose values are functions (for \<open>__proto__\<close>, the prototype
  object itself); any other key reads as \<open>undefined\<close>.
\<close>

datatype jsval = Undefined | Number jsnum | Object

definition SOURCES :: "(string \<times> jsnum) list" where
  "SOURCES =
     [(''espresso'', Fin 64), (''coffee'', Fin 95), (''tea_black'', Fin 47),
      (''tea_green'', Fin 28), (''energy_drink'', Fin 80), (''cola'', Fin 34),
      (''dark_chocolate'', Fin 12)]"

definition Object_prototype_keys :: "string list" where
  "Object_prototype_keys =
     [''constructor'', ''__defineGetter__'', ''__defineSetter__'', ''hasOwnProperty'',
      ''__lookupGetter__'', ''__lookupSetter__'', ''isPrototypeOf'',
      ''propertyIsEnumerable'', ''toString'', ''valueOf'', ''__proto__'',
      ''toLocaleString'']"

definition SOURCES_get :: "string \<Rightarrow> jsval" where
  "SOURCES_get key =
     (case map_of SOURCES key of
        Some n \<Rightarrow> Number n
      | None \<Rightarrow> if key \<in> set Object_prototype_keys then Object else Undefined)"

fun truthy :: "jsval \<Rightarrow> bool" where
  "truthy Undefined = False"
| "truthy (Number n) = truthy_num n"
| "truthy Object = True"

text \<open>The numeric value an operand of \<open>*\<close> is converted to.\<close>

fun ToNumber :: "jsval \<Rightarrow> jsnum" where
  "ToNumber Undefined = NaN"
| "ToNumber (Number n) = n"
| "ToNumber Object = NaN"

subsection \<open>State\<close>

record event =
  ev_dose :: jsnum
  ev_time :: jsdate
  ev_source :: string
  ev_timestamp :: int

text \<open>
  \<open>this.state\<close>, with the fields the operations read or write. (The defaults spread
  in from the domain registry come first in the constructor's object literal, so each
  of these fields overrides them.)
\<close>

record tracker_state =
  bodyWeight :: jsnum
  metabolismRate :: string
  caffeineHistory :: "event list"
  currentLevel :: jsnum
  rateConstant :: jsnum
  halfLife :: jsnum

text \<open>The tracker object: \<open>this.state\<close> and \<open>this.volumeDistribution\<close>.\<close>

record forge =
  state :: tracker_state
  volumeDistribution :: jsnum

text \<open>
  An object holding any subset of the state's fields: the constructor's
  \<open>userConfig\<close>, the argument of \<open>updateConfig\<close>, the \<open>state\<close> of a saved blob.
\<close>

record config =
  cfg_bodyWeight :: "jsnum option"
  cfg_metabolismRate :: "string option"
  cfg_caffeineHistory :: "event list option"
  cfg_currentLevel :: "jsnum option"
  cfg_rateConstant :: "jsnum option"
  cfg_halfLife :: "jsnum option"

definition no_config :: config where
  "no_config = \<lparr>cfg_bodyWeight = None, cfg_metabolismRate = None,
     cfg_caffeineHistory = None, cfg_currentLevel = None, cfg_rateConstant = None,
     cfg_halfLife = None\<rparr>"

text \<open>\<open>Object.assign(s, c)\<close> and the spread \<open>{...s, ...c}\<close>: the fields of \<open>c\<close> win.\<close>

definition assign :: "tracker_state \<Rightarrow> config \<Rightarrow> tracker_state" where
  "assign s c =
     \<lparr>bodyWeight = (case cfg_bodyWeight c of None \<Rightarrow> bodyWeight s | Some v \<Rightarrow> v),
      metabolismRate = (case cfg_metabolismRate c of None \<Rightarrow> metabolismRate s | Some v \<Rightarrow> v),
      caffeineHistory = (case cfg_caffeineHistory c of None \<Rightarrow> caffeineHistory s | Some v \<Rightarrow> v),
      currentLevel = (case cfg_currentLevel c of None \<Rightarrow> currentLevel s | Some v \<Rightarrow> v),
      rateConstant = (case cfg_rateConstant c of None \<Rightarrow> rateConstant s | Some v \<Rightarrow> v),
      halfLife = (case cfg_halfLife c of None \<Rightarrow> halfLife s | Some v \<Rightarrow> v)\<rparr>"

definition updateRateConstant :: "forge \<Rightarrow> forge" where
  "updateRateConstant f =
     (if metabolismRate (state f) = ''fast''
      then f\<lparr>state := (state f)\<lparr>rateConstant := RATE_FAST, halfLife := HALF_LIFE_MIN\<rparr>\<rparr>
      else if metabolismRate (state f) = ''slow''
      then f\<lparr>state := (state f)\<lparr>rateConstant := RATE_SLOW, halfLife := HALF_LIFE_MAX\<rparr>\<rparr>
      else f\<lparr>state := (state f)\<lparr>rateConstant := RATE_TYPICAL, halfLife := HALF_LIFE_TYPICAL\<rparr>\<rparr>)"

text \<open>
  The constructor. Before \<open>updateRateConstant\<close> runs, \<open>rateConstant\<close> and
  \<open>halfLife\<close> hold whatever \<open>userConfig\<close> gave (nothing, by default); both are
  overwritten, so their initial value here is immaterial.
\<close>

definition new_CaffeineForge :: "config \<Rightarrow> forge" where
  "new_CaffeineForge userConfig =
     (let s = assign \<lparr>bodyWeight = Fin 70, metabolismRate = ''typical'',
                       caffeineHistory = [], currentLevel = Fin 0,
                       rateConstant = NaN, halfLife = NaN\<rparr> userConfig;
          f = updateRateConstant \<lparr>state = s, volumeDistribution = NaN\<rparr>
      in f\<lparr>volumeDistribution := js_mul (bodyWeight (state f)) VD_PER_KG\<rparr>)"

subsection \<open>Doses\<close>

text \<open>
  An operation of the tracker returns its outcome (a value, or the error thrown) and
  the tracker as the call leaves it. \<open>clock\<close> is the wall clock in milliseconds, read
  by \<open>Date.now()\<close> and by the \<open>new Date()\<close> of a defaulted parameter; an absent
  argument is \<open>None\<close>.
\<close>

definition addDose ::
  "forge \<Rightarrow> jsnum \<Rightarrow> timearg option \<Rightarrow> string option \<Rightarrow> int \<Rightarrow> (error + event) \<times> forge" where
  "addDose f dose time source clock =
     (let event = \<lparr>ev_dose = dose,
                    ev_time = (case time of None \<Rightarrow> Date clock | Some t \<Rightarrow> to_Date t),
                    ev_source = (case source of None \<Rightarrow> ''unknown'' | Some s \<Rightarrow> s),
                    ev_timestamp = clock\<rparr>
      in (Inr event,
          f\<lparr>state := (state f)\<lparr>caffeineHistory := caffeineHistory (state f) @ [event]\<rparr>\<rparr>))"

definition addBySource ::
  "forge \<Rightarrow> string \<Rightarrow> jsnum option \<Rightarrow> timearg option \<Rightarrow> int \<Rightarrow> (error + event) \<times> forge" where
  "addBySource f source servings time clock =
     (let dosePerServing = SOURCES_get source in
      if \<not> truthy dosePerServing
      then (Inl (UnknownSource (''Unknown caffeine source: '' @ source)), f)
      else
        (let totalDose = js_mul (ToNumber dosePerServing)
                           (case servings of None \<Rightarrow> Fin 1 | Some n \<Rightarrow> n)
         in addDose f totalDose
              (Some (case time of None \<Rightarrow> ADate (Date clock) | Some t \<Rightarrow> t))
              (Some source) clock))"

subsection \<open>Levels\<close>

text \<open>
  The \<open>for (const event of this.state.caffeineHistory)\<close> loop of
  \<open>getCurrentLevel\<close>, with the running \<open>totalLevel\<close>.
\<close>

fun getCurrentLevel_loop :: "forge \<Rightarrow> jsdate \<Rightarrow> event list \<Rightarrow> jsnum \<Rightarrow> error + jsnum" where
  "getCurrentLevel_loop f now [] totalLevel = Inr totalLevel"
| "getCurrentLevel_loop f now (event # rest) totalLevel =
     (let hoursElapsed = js_div (js_sub (getTime now) (getTime (ev_time event)))
                           (js_mul (js_mul (Fin 1000) (Fin 60)) (Fin 60)) in
      if js_ge hoursElapsed (Fin 0) then
        (let initialConcentration = js_div (ev_dose event) (volumeDistribution f) in
         case calculate initialConcentration (rateConstant (state f)) hoursElapsed of
           Inl e \<Rightarrow> Inl e
         | Inr remaining \<Rightarrow> getCurrentLevel_loop f now rest (js_add totalLevel remaining))
      else getCurrentLevel_loop f now rest totalLevel)"

definition getCurrentLevel ::
  "forge \<Rightarrow> timearg option \<Rightarrow> int \<Rightarrow> (error + jsnum) \<times> forge" where
  "getCurrentLevel f currentTime clock =
     (let now = (case currentTime of None \<Rightarrow> Date clock | Some t \<Rightarrow> to_Date t) in
      case getCurrentLevel_loop f now (caffeineHistory (state f)) (Fin 0) of
        Inl e \<Rightarrow> (Inl e, f)
      | Inr totalLevel \<Rightarrow>
          (Inr totalLevel, f\<lparr>state := (state f)\<lparr>currentLevel := totalLevel\<rparr>\<rparr>))"

definition getBloodLevel :: "forge \<Rightarrow> jsnum \<Rightarrow> jsnum \<Rightarrow> error + jsnum" where
  "getBloodLevel f dose hoursElapsed =
     (let initialConcentration = js_div dose (volumeDistribution f)
      in calculate initialConcentration (rateConstant (state f)) hoursElapsed)"

subsection \<open>Time until sleep\<close>

record sleep_info =
  sl_hours :: jsnum
  sl_sleepTime :: jsdate
  sl_canSleepNow :: bool
  sl_currentLevel :: jsnum

text \<open>
  \<open>sleepThreshold || THRESHOLD_SLEEP\<close>: an absent (\<open>null\<close>) or falsy threshold
  gives the default.
\<close>

definition getTimeUntilSleep ::
  "forge \<Rightarrow> jsnum option \<Rightarrow> jsdate option \<Rightarrow> int \<Rightarrow> (error + sleep_info) \<times> forge" where
  "getTimeUntilSleep f sleepThreshold fromTime' clock =
     (let fromTime = (case fromTime' of None \<Rightarrow> Date clock | Some d \<Rightarrow> d);
          threshold = (case sleepThreshold of
                         None \<Rightarrow> THRESHOLD_SLEEP
                       | Some n \<Rightarrow> if truthy_num n then n else THRESHOLD_SLEEP)
      in case getCurrentLevel f (Some (ADate fromTime)) clock of
           (Inl e, f') \<Rightarrow> (Inl e, f')
         | (Inr level, f') \<Rightarrow>
             if js_le level threshold
             then (Inr \<lparr>sl_hours = Fin 0, sl_sleepTime = fromTime, sl_canSleepNow = True,
                        sl_currentLevel = level\<rparr>, f')
             else
               (case timeToReach level threshold (rateConstant (state f')) of
                  Inl e \<Rightarrow> (Inl e, f')
                | Inr hours \<Rightarrow>
                    (Inr \<lparr>sl_hours = hours,
                          sl_sleepTime = new_Date (js_add (getTime fromTime)
                            (js_mul (js_mul (js_mul hours (Fin 60)) (Fin 60)) (Fin 1000))),
                          sl_canSleepNow = False, sl_currentLevel = level\<rparr>, f')))"

subsection \<open>Dosing schedule\<close>

record dosing =
  ds_time :: jsnum
  ds_dose :: jsnum
  ds_reason :: string

text \<open>
  The \<open>while (currentTime < duration)\<close> loop of \<open>optimizeDosing\<close>. Nothing bounds
  the number of its iterations, so a run that never leaves the loop is the value
  \<open>None\<close>.
\<close>

partial_function (option) optimizeDosing_loop ::
  "forge \<Rightarrow> jsnum \<Rightarrow> jsnum \<Rightarrow> jsnum \<Rightarrow> jsnum \<Rightarrow> jsnum \<Rightarrow> jsnum \<Rightarrow> dosing list
     \<Rightarrow> dosing list option" where
  "optimizeDosing_loop f targetConcentration redoseThreshold maxDose redoseInterval
       duration currentTime schedule =
     (if js_lt currentTime duration then
        (let boostDose = js_min (js_mul (js_sub targetConcentration redoseThreshold)
                                   (volumeDistribution f)) maxDose
         in optimizeDosing_loop f targetConcentration redoseThreshold maxDose redoseInterval
              duration (js_add currentTime redoseInterval)
              (schedule @ [\<lparr>ds_time = currentTime, ds_dose = boostDose,
                             ds_reason = ''Maintenance dose''\<rparr>]))
      else Some schedule)"

definition optimizeDosing ::
  "forge \<Rightarrow> jsnum \<Rightarrow> jsnum \<Rightarrow> jsnum option \<Rightarrow> (error + dosing list) option" where
  "optimizeDosing f targetLevel duration maxDose' =
     (let maxDose = (case maxDose' of None \<Rightarrow> Fin 200 | Some m \<Rightarrow> m);
          targetConcentration = targetLevel;
          initialDose = js_min (js_mul targetConcentration (volumeDistribution f)) maxDose;
          schedule = [\<lparr>ds_time = Fin 0, ds_dose = initialDose,
                        ds_reason = ''Initial dose to reach target''\<rparr>];
          redoseThreshold = js_mul targetConcentration (Fin (7 / 10));
          initialConc = js_div initialDose (volumeDistribution f)
      in case timeToReach initialConc redoseThreshold (rateConstant (state f)) of
           Inl e \<Rightarrow> Some (Inl e)
         | Inr redoseInterval \<Rightarrow>
             map_option Inr
               (optimizeDosing_loop f targetConcentration redoseThreshold maxDose
                  redoseInterval duration redoseInterval schedule))"

subsection \<open>Configuration and persistence\<close>

text \<open>
  \<open>if (config.bodyWeight)\<close> and \<open>if (config.metabolismRate)\<close> test truthiness: a
  missing field, a zero or NaN weight and an empty profile name are all falsy.
\<close>

definition updateConfig :: "forge \<Rightarrow> config \<Rightarrow> forge" where
  "updateConfig f c =
     (let f1 = f\<lparr>state := assign (state f) c\<rparr>;
          f2 = (case cfg_bodyWeight c of
                  Some w \<Rightarrow> if truthy_num w
                            then f1\<lparr>volumeDistribution := js_mul w VD_PER_KG\<rparr> else f1
                | None \<Rightarrow> f1)
      in case cfg_metabolismRate c of
           Some m \<Rightarrow> if m \<noteq> [] then updateRateConstant f2 else f2
         | None \<Rightarrow> f2)"

text \<open>
  The exported blob \<open>{version, state, timestamp}\<close>; its \<open>state\<close> is the field
  \<open>saved\<close> here. A blob read back may carry any version tag or none, and any subset
  of the state's fields.
\<close>

record blob =
  version :: "string option"
  saved :: config
  timestamp :: int

definition exportState :: "forge \<Rightarrow> int \<Rightarrow> blob" where
  "exportState f clock =
     \<lparr>version = Some ''1.0'',
      saved = \<lparr>cfg_bodyWeight = Some (bodyWeight (state f)),
                cfg_metabolismRate = Some (metabolismRate (state f)),
                cfg_caffeineHistory = Some (caffeineHistory (state f)),
                cfg_currentLevel = Some (currentLevel (state f)),
                cfg_rateConstant = Some (rateConstant (state f)),
                cfg_halfLife = Some (halfLife (state f))\<rparr>,
      timestamp = clock\<rparr>"

definition importState :: "forge \<Rightarrow> blob \<Rightarrow> forge" where
  "importState f savedState =
     (if version savedState = Some ''1.0'' then
        (let f1 = f\<lparr>state := assign (state f) (saved savedState)\<rparr>;
             f2 = updateRateConstant f1
         in f2\<lparr>volumeDistribution := js_mul (bodyWeight (state f2)) VD_PER_KG\<rparr>)
      else f)"

text \<open>
  What the constructor establishes between the configuration and the fields derived
  from it: the rate constant and the half-life are the ones of the metabolism profile
  (\<open>'fast'\<close>: 0.3466 and 2; \<open>'slow'\<close>: 0.0693 and 10; any other name: 0.1386 and
  5), and the volume is the body weight times \<open>VD_PER_KG\<close>.
\<close>

definition derived_consistent :: "forge \<Rightarrow> bool" where
  "derived_consistent f \<longleftrightarrow>
     rateConstant (state f) =
       (if metabolismRate (state f) = ''fast'' then RATE_FAST
        else if metabolismRate (state f) = ''slow'' then RATE_SLOW else RATE_TYPICAL) \<and>
     halfLife (state f) =
       (if metabolismRate (state f) = ''fast'' then HALF_LIFE_MIN
        else if metabolismRate (state f) = ''slow'' then HALF_LIFE_MAX else HALF_LIFE_TYPICAL) \<and>
     volumeDistribution f = js_mul (bodyWeight (state f)) VD_PER_KG"

subsection \<open>The level, as specified\<close>

text \<open>
  The specification's reading of \<open>getCurrentLevel\<close>, to compare the loop with:
  keep the events that occurred at or before the query time (\<open>event.time <= now\<close>
  on the dates' time values), take each one's decay over the hours elapsed, and add
  the results up in log order, starting from 0. A decay that fails is the failure of
  the whole.
\<close>

definition occurred_by :: "jsdate \<Rightarrow> event \<Rightarrow> bool" where
  "occurred_by now e = js_le (getTime (ev_time e)) (getTime now)"

definition contribution :: "forge \<Rightarrow> jsdate \<Rightarrow> event \<Rightarrow> error + jsnum" where
  "contribution f now e =
     calculate (js_div (ev_dose e) (volumeDistribution f)) (rateConstant (state f))
       (js_div (js_sub (getTime now) (getTime (ev_time e))) (Fin 3600000))"

fun sum_levels :: "jsnum \<Rightarrow> (error + jsnum) list \<Rightarrow> error + jsnum" where
  "sum_levels acc [] = Inr acc"
| "sum_levels acc (Inl e # xs) = Inl e"
| "sum_levels acc (Inr x # xs) = sum_levels (js_add acc x) xs"

definition superposition_level :: "forge \<Rightarrow> jsdate \<Rightarrow> error + jsnum" where
  "superposition_level f now =
     sum_levels (Fin 0)
       (map (contribution f now) (filter (occurred_by now) (caffeineHistory (state f))))"

text \<open>The real number a finite \<open>jsnum\<close> holds, and the milliseconds of a valid date.\<close>

fun fin :: "jsnum \<Rightarrow> real" where
  "fin (Fin x) = x"
| "fin _ = 0"

fun ms_of :: "jsdate \<Rightarrow> int" where
  "ms_of (Date ms) = ms"
| "ms_of InvalidDate = 0"

section \<open>Properties of ForgeCalculator\<close>

text \<open>
  C2. \<open>timeToReach(initial, target, rate)\<close> on finite \<open>initial\<close> and \<open>target\<close>: it
  returns 0 whenever \<open>target \<ge> initial\<close>; otherwise it returns \<open>+\<infinity>\<close> whenever
  \<open>target \<le> 0\<close>; in both cases whatever the rate is, so no error is raised there for
  a rate \<open>\<le> 0\<close>. Otherwise (\<open>initial > target > 0\<close>) it fails with InvalidArgument
  exactly when \<open>rate \<le> 0\<close> and returns \<open>ln(initial/target)/rate\<close> when \<open>rate > 0\<close>.
\<close>

theorem timeToReach_branches:
  "(g \<ge> i \<longrightarrow> timeToReach (Fin i) (Fin g) rate = Inr (Fin 0)) \<and>
   (g < i \<and> g \<le> 0 \<longrightarrow> timeToReach (Fin i) (Fin g) rate = Inr PInf) \<and>
   (g < i \<and> 0 < g \<longrightarrow>
      ((\<exists>e. timeToReach (Fin i) (Fin g) (Fin r) = Inl e) \<longleftrightarrow> r \<le> 0) \<and>
      (r \<le> 0 \<longrightarrow> timeToReach (Fin i) (Fin g) (Fin r)
                    = Inl (InvalidArgument ''Rate constant must be positive'')) \<and>
      (0 < r \<longrightarrow> timeToReach (Fin i) (Fin g) (Fin r) = Inr (Fin (ln (i / g) / r))))"
  by (simp add: timeToReach_def js_ge_def)

theorem timeToReach_branches_witness:
  "timeToReach (Fin 1) (Fin 2) (Fin (- 1)) = Inr (Fin 0) \<and>
   timeToReach (Fin 1) (Fin 0) (Fin (- 1)) = Inr PInf \<and>
   timeToReach (Fin 2) (Fin 1) (Fin 0) = Inl (InvalidArgument ''Rate constant must be positive'') \<and>
   timeToReach (Fin 2) (Fin 1) (Fin 1) = Inr (Fin (ln 2))"
  using timeToReach_branches [where i = 1 and g = 2 and rate = "Fin (- 1)"]
    timeToReach_branches [where i = 1 and g = 0 and rate = "Fin (- 1)"]
    timeToReach_branches [where i = 2 and g = 1 and r = 0]
    timeToReach_branches [where i = 2 and g = 1 and r = 1]
  by simp

text \<open>
  C8. Both conversions compute \<open>ln 2\<close> divided by their argument and fail with
  InvalidArgument exactly when the argument is \<open>\<le> 0\<close>; for every finite
  \<open>halfLife > 0\<close>, \<open>rateToHalfLife(halfLifeToRate(halfLife))\<close> is \<open>halfLife\<close> again
  (exactly so over the reals).
\<close>

theorem rate_halfLife_roundtrip:
  "((\<exists>e. halfLifeToRate (Fin x) = Inl e) \<longleftrightarrow> x \<le> 0) \<and>
   ((\<exists>e. rateToHalfLife (Fin x) = Inl e) \<longleftrightarrow> x \<le> 0) \<and>
   (x \<le> 0 \<longrightarrow> halfLifeToRate (Fin x) = Inl (InvalidArgument ''Half-life must be positive'') \<and>
              rateToHalfLife (Fin x) = Inl (InvalidArgument ''Rate constant must be positive'')) \<and>
   (0 < x \<longrightarrow> halfLifeToRate (Fin x) = Inr (Fin (ln 2 / x)) \<and>
              rateToHalfLife (Fin x) = Inr (Fin (ln 2 / x)) \<and>
              rateToHalfLife (Fin (ln 2 / x)) = Inr (Fin x) \<and>
              (case halfLifeToRate (Fin x) of
                 Inl e \<Rightarrow> False
               | Inr rate \<Rightarrow> rateToHalfLife rate = Inr (Fin x)))"
proof -
  have pos: "\<not> ln 2 / x \<le> 0" if "0 < x"
    using that by (simp add: not_le)
  have inv: "ln 2 / (ln 2 / x) = x"
    by simp
  show ?thesis
    by (simp add: halfLifeToRate_def rateToHalfLife_def LN2_def pos inv)
qed

theorem rate_halfLife_roundtrip_witness:
  "halfLifeToRate (Fin 5) = Inr (Fin (ln 2 / 5)) \<and>
   rateToHalfLife (Fin (ln 2 / 5)) = Inr (Fin 5) \<and>
   halfLifeToRate (Fin 0) = Inl (InvalidArgument ''Half-life must be positive'') \<and>
   rateToHalfLife (Fin (- 1)) = Inl (InvalidArgument ''Rate constant must be positive'')"
  using rate_halfLife_roundtrip [of 5] rate_halfLife_roundtrip [of 0]
    rate_halfLife_roundtrip [of "- 1"]
  by simp

declare generateCurve_loop.simps [simp del]

lemma generateCurve_loop_step:
  assumes "0 \<le> i0" "0 < r" "0 \<le> dt" "0 \<le> i" "i \<le> n"
  shows "generateCurve_loop (Fin i0) (Fin r) (Fin dt) n i data =
     generateCurve_loop (Fin i0) (Fin r) (Fin dt) n (i + 1)
       (data @ [\<lparr>pt_time = Fin (of_int i * dt),
                  pt_value = Fin (i0 * exp (- r * (of_int i * dt))),
                  pt_percent = js_mul (js_div (Fin (i0 * exp (- r * (of_int i * dt)))) (Fin i0)) (Fin 100),
                  pt_halfLives = Fin (of_int i * dt / (ln 2 / r))\<rparr>])"
proof -
  have t: "\<not> of_int i * dt < 0"
    using mult_nonneg_nonneg [of "of_int i" dt] assms(3,4) by (simp add: not_less)
  have c: "calculate (Fin i0) (Fin r) (Fin (of_int i * dt)) = Inr (Fin (i0 * exp (- r * (of_int i * dt))))"
    using assms(1,2) by (simp add: calculate_def t)
  have h: "rateToHalfLife (Fin r) = Inr (Fin (ln 2 / r))"
    using assms by (simp add: rateToHalfLife_def LN2_def)
  have d: "js_div (Fin (of_int i * dt)) (Fin (ln 2 / r)) = Fin (of_int i * dt / (ln 2 / r))"
    using assms by simp
  show ?thesis
    by (subst generateCurve_loop.simps) (simp only: assms c h d Let_def js_mul.simps sum.case if_True)
qed

lemma generateCurve_loop_samples:
  assumes "0 \<le> i0" "0 < r" "0 \<le> dt"
  shows "0 \<le> i \<Longrightarrow> generateCurve_loop (Fin i0) (Fin r) (Fin dt) n i data =
     Inr (data @ map (\<lambda>j. \<lparr>pt_time = Fin (of_int j * dt),
                            pt_value = Fin (i0 * exp (- r * (of_int j * dt))),
                            pt_percent = js_mul (js_div (Fin (i0 * exp (- r * (of_int j * dt)))) (Fin i0)) (Fin 100),
                            pt_halfLives = Fin (of_int j * dt / (ln 2 / r))\<rparr>) [i..n])"
proof (induction "nat (n + 1 - i)" arbitrary: i data)
  case 0
  then have "\<not> i \<le> n" by simp
  then show ?case by (simp add: generateCurve_loop.simps)
next
  case (Suc k)
  then have le: "i \<le> n" by simp
  have u: "[i..n] = i # [i + 1..n]" using le by (simp add: upto_rec1)
  have k: "k = nat (n + 1 - (i + 1))" using Suc(2) by simp
  show ?case
    using Suc(1)[OF k, of "data @ [\<lparr>pt_time = Fin (of_int i * dt),
                  pt_value = Fin (i0 * exp (- r * (of_int i * dt))),
                  pt_percent = js_mul (js_div (Fin (i0 * exp (- r * (of_int i * dt)))) (Fin i0)) (Fin 100),
                  pt_halfLives = Fin (of_int i * dt / (ln 2 / r))\<rparr>]"] Suc(3)
    by (simp only: generateCurve_loop_step[OF assms Suc(3) le] u list.map append_assoc append_Cons append_Nil)
qed

lemma decay_mono:
  fixes i0 r a b :: real
  assumes "0 \<le> i0" "0 < r" "a \<le> b"
  shows "i0 * exp (- r * b) \<le> i0 * exp (- r * a)"
proof -
  have "r * a \<le> r * b" using assms(2,3) by simp
  then have "exp (- r * b) \<le> exp (- r * a)" by simp
  then show ?thesis using assms(1) by (rule mult_left_mono)
qed

lemma generateCurve_ok:
  assumes "0 \<le> i0" "0 < r" "0 < d" "1 \<le> n"
  shows "generateCurve (Fin i0) (Fin r) (Fin d) n =
     Inr (map (\<lambda>j. \<lparr>pt_time = Fin (of_int j * (d / of_int n)),
                      pt_value = Fin (i0 * exp (- r * (of_int j * (d / of_int n)))),
                      pt_percent = js_mul (js_div (Fin (i0 * exp (- r * (of_int j * (d / of_int n))))) (Fin i0)) (Fin 100),
                      pt_halfLives = Fin (of_int j * (d / of_int n) / (ln 2 / r))\<rparr>) [0..n])"
proof -
  have dt: "js_div (Fin d) (Fin (of_int n)) = Fin (d / of_int n)"
    using assms(4) by simp
  have nn: "0 \<le> d / of_int n" using assms(3,4) by simp
  show ?thesis
    unfolding generateCurve_def Let_def dt
    using generateCurve_loop_samples [OF assms(1,2) nn, of 0 n "[]"] by simp
qed

text \<open>
  C5 (as the code has it). For every finite \<open>initial \<ge> 0\<close>, \<open>duration > 0\<close> and
  integer \<open>steps \<ge> 1\<close>: when \<open>rate > 0\<close>, \<open>generateCurve\<close> returns exactly
  \<open>steps + 1\<close> points, the \<open>j\<close>-th at time \<open>j * duration/steps\<close>, so from 0 to
  \<open>duration\<close> inclusive; the first value is \<open>initial\<close> and each value is at most the
  one before it. When \<open>rate \<le> 0\<close> the call returns no points: it fails with
  InvalidArgument.
\<close>

theorem generateCurve_samples:
  assumes "0 \<le> i0" "0 < d" "1 \<le> n"
  shows "(0 < r \<longrightarrow>
           (\<exists>pts. generateCurve (Fin i0) (Fin r) (Fin d) n = Inr pts \<and>
              length pts = nat n + 1 \<and>
              (\<forall>j<length pts. pt_time (pts ! j) = Fin (of_nat j * (d / of_int n))) \<and>
              pt_time (pts ! 0) = Fin 0 \<and> pt_time (pts ! nat n) = Fin d \<and>
              pt_value (pts ! 0) = Fin i0 \<and>
              (\<forall>j<nat n. js_le (pt_value (pts ! Suc j)) (pt_value (pts ! j))))) \<and>
         (r \<le> 0 \<longrightarrow> (\<exists>m. generateCurve (Fin i0) (Fin r) (Fin d) n = Inl (InvalidArgument m)))"
proof (intro conjI impI)
  assume r: "0 < r"
  let ?dt = "d / of_int n"
  let ?f = "\<lambda>j. \<lparr>pt_time = Fin (of_int j * ?dt),
                      pt_value = Fin (i0 * exp (- r * (of_int j * ?dt))),
                      pt_percent = js_mul (js_div (Fin (i0 * exp (- r * (of_int j * ?dt)))) (Fin i0)) (Fin 100),
                      pt_halfLives = Fin (of_int j * ?dt / (ln 2 / r))\<rparr>"
  let ?pts = "map ?f [0..n]"
  have eq: "generateCurve (Fin i0) (Fin r) (Fin d) n = Inr ?pts"
    by (rule generateCurve_ok [OF assms(1) r assms(2,3)])
  have len: "length ?pts = nat n + 1" using assms(3) by simp
  have nth: "?pts ! j = ?f (int j)" if "j < nat n + 1" for j
  proof -
    have l: "j < length [0..n]" using that assms(3) by simp
    have u: "[0..n] ! j = int j" using that assms(3) nth_upto [of 0 j n] by simp
    show ?thesis by (simp only: nth_map [OF l] u)
  qed
  have dt0: "0 \<le> ?dt" using assms(2,3) by simp
  have times: "\<forall>j<length ?pts. pt_time (?pts ! j) = Fin (of_nat j * ?dt)"
    using nth len by simp
  have first: "pt_time (?pts ! 0) = Fin 0" "pt_value (?pts ! 0) = Fin i0"
    using nth [of 0] by simp_all
  have last: "pt_time (?pts ! nat n) = Fin d"
    using nth [of "nat n"] assms(3) by simp
  have val: "pt_value (?pts ! j) = Fin (i0 * exp (- r * (of_nat j * ?dt)))"
    if "j < nat n + 1" for j
    by (simp only: nth [OF that] point.select_convs of_int_of_nat_eq)
  have mono: "js_le (pt_value (?pts ! Suc j)) (pt_value (?pts ! j))" if "j < nat n" for j
  proof -
    have a: "j < nat n + 1" and b: "Suc j < nat n + 1" using that by simp_all
    have "of_nat j * ?dt \<le> of_nat (Suc j) * ?dt"
      by (rule mult_right_mono) (use dt0 in simp_all)
    then have "i0 * exp (- r * (of_nat (Suc j) * ?dt)) \<le> i0 * exp (- r * (of_nat j * ?dt))"
      by (rule decay_mono [OF assms(1) r])
    then show ?thesis
      by (simp only: val [OF a] val [OF b] js_le.simps)
  qed
  show "\<exists>pts. generateCurve (Fin i0) (Fin r) (Fin d) n = Inr pts \<and>
              length pts = nat n + 1 \<and>
              (\<forall>j<length pts. pt_time (pts ! j) = Fin (of_nat j * (d / of_int n))) \<and>
              pt_time (pts ! 0) = Fin 0 \<and> pt_time (pts ! nat n) = Fin d \<and>
              pt_value (pts ! 0) = Fin i0 \<and>
              (\<forall>j<nat n. js_le (pt_value (pts ! Suc j)) (pt_value (pts ! j)))"
    using eq len times first last mono by blast
next
  assume r: "r \<le> 0"
  have le: "(0::int) \<le> n" using assms(3) by simp
  have dt: "js_div (Fin d) (Fin (of_int n)) = Fin (d / of_int n)"
    using assms(3) by simp
  show "\<exists>m. generateCurve (Fin i0) (Fin r) (Fin d) n = Inl (InvalidArgument m)"
    unfolding generateCurve_def Let_def dt
    using r assms(1) le
    by (subst generateCurve_loop.simps) (auto simp: calculate_def rateToHalfLife_def Let_def)
qed

theorem generateCurve_samples_witness:
  "(\<exists>pts. generateCurve (Fin 100) (Fin 1) (Fin 24) 4 = Inr pts \<and> length pts = 5 \<and>
      pt_time (pts ! 0) = Fin 0 \<and> pt_time (pts ! 4) = Fin 24 \<and>
      pt_value (pts ! 0) = Fin 100 \<and> js_le (pt_value (pts ! 1)) (pt_value (pts ! 0))) \<and>
   (\<exists>m. generateCurve (Fin 100) (Fin (- 1)) (Fin 24) 4 = Inl (InvalidArgument m))"
proof -
  have h: "(0::real) \<le> 100" "(0::real) < 24" "(1::int) \<le> 4" by simp_all
  from generateCurve_samples [OF h, of 1] obtain pts where
    p: "generateCurve (Fin 100) (Fin 1) (Fin 24) 4 = Inr pts" "length pts = nat 4 + 1"
      "pt_time (pts ! 0) = Fin 0" "pt_time (pts ! nat 4) = Fin 24"
      "pt_value (pts ! 0) = Fin 100"
      "\<forall>j<nat 4. js_le (pt_value (pts ! Suc j)) (pt_value (pts ! j))"
    by auto
  from p(6) have "js_le (pt_value (pts ! 1)) (pt_value (pts ! 0))" by simp
  with p(1-5) have
    "generateCurve (Fin 100) (Fin 1) (Fin 24) 4 = Inr pts \<and> length pts = 5 \<and>
      pt_time (pts ! 0) = Fin 0 \<and> pt_time (pts ! 4) = Fin 24 \<and>
      pt_value (pts ! 0) = Fin 100 \<and> js_le (pt_value (pts ! 1)) (pt_value (pts ! 0))"
    by simp
  moreover have "\<exists>m. generateCurve (Fin 100) (Fin (- 1)) (Fin 24) 4 = Inl (InvalidArgument m)"
    using generateCurve_samples [OF h, of "- 1"] by simp
  ultimately show ?thesis by blast
qed

text \<open>
  With rate 0 no point is returned, although \<open>calculate\<close> accepts a zero rate: the
  first iteration's \<open>rateToHalfLife(0)\<close> throws.
\<close>

theorem generateCurve_rate_zero_counterexample:
  "generateCurve (Fin 100) (Fin 0) (Fin 24) 100
     = Inl (InvalidArgument ''Rate constant must be positive'')"
  by (simp add: generateCurve_def generateCurve_loop.simps [of _ _ _ _ 0] calculate_def
      rateToHalfLife_def)

section \<open>Properties of CaffeineForge\<close>

lemma elapsed_ge_zero:
  "js_ge (js_div (js_sub (getTime now) (getTime t)) (js_mul (js_mul (Fin 1000) (Fin 60)) (Fin 60))) (Fin 0)
     \<longleftrightarrow> js_le (getTime t) (getTime now)"
  by (cases now; cases t) (simp_all add: js_ge_def js_sub_def)

lemma hour_ms: "js_mul (js_mul (Fin 1000) (Fin 60)) (Fin 60) = Fin 3600000"
  by simp

lemma getCurrentLevel_loop_sum:
  "getCurrentLevel_loop f now es acc =
     sum_levels acc (map (contribution f now) (filter (occurred_by now) es))"
proof (induction es arbitrary: acc)
  case Nil
  show ?case by simp
next
  case (Cons e es)
  show ?case
  proof (cases "occurred_by now e")
    case True
    then have ge: "js_ge (js_div (js_sub (getTime now) (getTime (ev_time e))) (js_mul (js_mul (Fin 1000) (Fin 60)) (Fin 60))) (Fin 0)"
      by (simp only: elapsed_ge_zero occurred_by_def)
    show ?thesis
      using True ge Cons.IH
      by (cases "contribution f now e") (simp_all add: Let_def contribution_def del: js_mul.simps js_div.simps add: hour_ms[symmetric])
  next
    case False
    then have ge: "\<not> js_ge (js_div (js_sub (getTime now) (getTime (ev_time e))) (js_mul (js_mul (Fin 1000) (Fin 60)) (Fin 60))) (Fin 0)"
      by (simp only: elapsed_ge_zero occurred_by_def not_False_eq_True)
    show ?thesis
      using False ge Cons.IH by (simp add: Let_def del: js_mul.simps js_div.simps)
  qed
qed

lemma contribution_finite:
  assumes "volumeDistribution f = Fin v" "0 < v" "rateConstant (state f) = Fin k" "0 \<le> k"
    and "ev_dose e = Fin d" "0 \<le> d" "ev_time e = Date m" "m \<le> n"
  shows "contribution f (Date n) e
           = Inr (Fin (d / v * exp (- k * (of_int (n - m) / 3600000))))"
proof -
  have a: "\<not> d / v < 0" using assms(2,6) by (simp add: not_less)
  have b: "\<not> (of_int n - of_int m) / 3600000 < (0::real)" using assms(8) by (simp add: not_less)
  have c: "\<not> k < 0" using assms(4) by simp
  show ?thesis
    using assms(2) a b c
    by (simp add: contribution_def assms(1,3,5,7) js_sub_def calculate_def)
qed

lemma sum_levels_finite:
  assumes "volumeDistribution f = Fin v" "0 < v" "rateConstant (state f) = Fin k" "0 \<le> k"
  shows "(\<forall>e\<in>set es. ev_dose e = Fin (fin (ev_dose e)) \<and> 0 \<le> fin (ev_dose e) \<and>
                      ev_time e = Date (ms_of (ev_time e))) \<Longrightarrow>
     sum_levels (Fin acc) (map (contribution f (Date n)) (filter (occurred_by (Date n)) es))
       = Inr (Fin (acc + (\<Sum>e\<leftarrow>filter (\<lambda>e. ms_of (ev_time e) \<le> n) es.
                 fin (ev_dose e) / v * exp (- k * (of_int (n - ms_of (ev_time e)) / 3600000)))))"
proof (induction es arbitrary: acc)
  case Nil
  show ?case by simp
next
  case (Cons e es)
  from Cons.prems have e: "ev_dose e = Fin (fin (ev_dose e))" "0 \<le> fin (ev_dose e)"
      "ev_time e = Date (ms_of (ev_time e))"
    and rest: "\<forall>e\<in>set es. ev_dose e = Fin (fin (ev_dose e)) \<and> 0 \<le> fin (ev_dose e) \<and>
                      ev_time e = Date (ms_of (ev_time e))"
    by simp_all
  have occ: "occurred_by (Date n) e \<longleftrightarrow> ms_of (ev_time e) \<le> n"
    by (subst occurred_by_def, subst e(3)) simp
  show ?case
  proof (cases "ms_of (ev_time e) \<le> n")
    case True
    show ?thesis
      using True occ Cons.IH [OF rest] contribution_finite [OF assms e True]
      by (simp add: add.assoc)
  next
    case False
    show ?thesis
      using False occ Cons.IH [OF rest] by simp
  qed
qed

lemma two_doses:
  "(let f0 = new_CaffeineForge no_config;
        f1 = snd (addDose f0 (Fin 100) (Some (ADate (Date t0))) (Some ''coffee'') c1);
        f2 = snd (addDose f1 (Fin 100) (Some (ADate (Date (t0 + 4 * 3600000)))) (Some ''coffee'') c2)
    in \<exists>a b. getBloodLevel f2 (Fin 100) (Fin 4) = Inr a \<and>
             getBloodLevel f2 (Fin 100) (Fin 0) = Inr b \<and>
             fst (getCurrentLevel f2 (Some (ADate (Date (t0 + 4 * 3600000)))) c3)
               = Inr (js_add a b))"
  by (simp add: Let_def new_CaffeineForge_def no_config_def assign_def updateRateConstant_def
      addDose_def getBloodLevel_def getCurrentLevel_def calculate_def js_sub_def js_ge_def
      RATE_TYPICAL_def HALF_LIFE_TYPICAL_def VD_PER_KG_def)

text \<open>
  C1. For every tracker and query time, \<open>getCurrentLevel\<close> returns the superposition
  of the specification: the sum, over exactly the logged events with
  \<open>occurredAt \<le> t\<close>, of \<open>decay(amount / distributionVolume, rateConstant,
  t - occurredAt)\<close>, later events contributing nothing. On a tracker with a positive
  finite volume and a finite rate \<open>\<ge> 0\<close>, whose events carry finite doses \<open>\<ge> 0\<close>
  and valid dates, that is the real sum of \<open>amount/volume * exp(-k * hours)\<close> over those
  events. In particular, on a fresh default tracker given two doses of 100 four hours
  apart, the level at the second dose's time is
  \<open>getBloodLevel(100, 4) + getBloodLevel(100, 0)\<close>.
\<close>

theorem getCurrentLevel_superposition:
  "fst (getCurrentLevel f t clock)
     = superposition_level f (case t of None \<Rightarrow> Date clock | Some t' \<Rightarrow> to_Date t') \<and>
   (volumeDistribution f = Fin v \<and> 0 < v \<and> rateConstant (state f) = Fin k \<and> 0 \<le> k \<and>
    (\<forall>e\<in>set (caffeineHistory (state f)).
        ev_dose e = Fin (fin (ev_dose e)) \<and> 0 \<le> fin (ev_dose e) \<and>
        ev_time e = Date (ms_of (ev_time e))) \<longrightarrow>
    fst (getCurrentLevel f (Some (ADate (Date n))) clock)
      = Inr (Fin (\<Sum>e\<leftarrow>filter (\<lambda>e. ms_of (ev_time e) \<le> n) (caffeineHistory (state f)).
                 fin (ev_dose e) / v * exp (- k * (of_int (n - ms_of (ev_time e)) / 3600000))))) \<and>
   (let f0 = new_CaffeineForge no_config;
        f1 = snd (addDose f0 (Fin 100) (Some (ADate (Date t0))) (Some ''coffee'') c1);
        f2 = snd (addDose f1 (Fin 100) (Some (ADate (Date (t0 + 4 * 3600000)))) (Some ''coffee'') c2)
    in \<exists>a b. getBloodLevel f2 (Fin 100) (Fin 4) = Inr a \<and>
             getBloodLevel f2 (Fin 100) (Fin 0) = Inr b \<and>
             fst (getCurrentLevel f2 (Some (ADate (Date (t0 + 4 * 3600000)))) c3)
               = Inr (js_add a b))"
proof -
  have a: "fst (getCurrentLevel g u clock)
     = superposition_level g (case u of None \<Rightarrow> Date clock | Some t' \<Rightarrow> to_Date t')" for g u
    by (simp add: getCurrentLevel_def superposition_level_def getCurrentLevel_loop_sum Let_def
        split: sum.split)
  have b: "fst (getCurrentLevel f (Some (ADate (Date n))) clock)
      = Inr (Fin (\<Sum>e\<leftarrow>filter (\<lambda>e. ms_of (ev_time e) \<le> n) (caffeineHistory (state f)).
                 fin (ev_dose e) / v * exp (- k * (of_int (n - ms_of (ev_time e)) / 3600000))))"
    if "volumeDistribution f = Fin v" "0 < v" "rateConstant (state f) = Fin k" "0 \<le> k"
      "\<forall>e\<in>set (caffeineHistory (state f)).
        ev_dose e = Fin (fin (ev_dose e)) \<and> 0 \<le> fin (ev_dose e) \<and>
        ev_time e = Date (ms_of (ev_time e))"
    using sum_levels_finite [OF that(1-4), of "caffeineHistory (state f)" 0 n] that(5)
    by (simp add: a superposition_level_def)
  show ?thesis
    using a b two_doses by blast
qed

theorem getCurrentLevel_superposition_witness:
  "fst (getCurrentLevel
      \<lparr>state = \<lparr>bodyWeight = Fin 70, metabolismRate = ''typical'',
          caffeineHistory =
            [\<lparr>ev_dose = Fin 100, ev_time = Date 0, ev_source = ''coffee'', ev_timestamp = 0\<rparr>,
             \<lparr>ev_dose = Fin 100, ev_time = Date 14400000, ev_source = ''coffee'', ev_timestamp = 0\<rparr>,
             \<lparr>ev_dose = Fin 50, ev_time = Date 18000000, ev_source = ''tea'', ev_timestamp = 0\<rparr>],
          currentLevel = Fin 0, rateConstant = Fin (1386 / 10000), halfLife = Fin 5\<rparr>,
        volumeDistribution = Fin 42\<rparr>
      (Some (ADate (Date 14400000))) 0)
    = Inr (Fin (100 / 42 * exp (- (1386 / 10000) * 4) + 100 / 42))"
  using getCurrentLevel_superposition [where f = "\<lparr>state = \<lparr>bodyWeight = Fin 70, metabolismRate = ''typical'',
          caffeineHistory =
            [\<lparr>ev_dose = Fin 100, ev_time = Date 0, ev_source = ''coffee'', ev_timestamp = 0\<rparr>,
             \<lparr>ev_dose = Fin 100, ev_time = Date 14400000, ev_source = ''coffee'', ev_timestamp = 0\<rparr>,
             \<lparr>ev_dose = Fin 50, ev_time = Date 18000000, ev_source = ''tea'', ev_timestamp = 0\<rparr>],
          currentLevel = Fin 0, rateConstant = Fin (1386 / 10000), halfLife = Fin 5\<rparr>,
        volumeDistribution = Fin 42\<rparr>" and v = 42 and k = "1386 / 10000" and n = 14400000 and clock = 0,
      THEN conjunct2, THEN conjunct1]
  by simp

subsection \<open>Doses\<close>

text \<open>
  C3 (as the code has it). \<open>addDose\<close> checks nothing: for every amount, a negative
  one included, it succeeds, returns the new event carrying that amount, and leaves
  the tracker changed in exactly one way, the event appended at the end of the log.
\<close>

theorem addDose_appends:
  "\<exists>ev. addDose f dose time source clock
          = (Inr ev, f\<lparr>state := (state f)\<lparr>caffeineHistory := caffeineHistory (state f) @ [ev]\<rparr>\<rparr>)
        \<and> ev_dose ev = dose"
  by (simp add: addDose_def Let_def)

text \<open>
  On a fresh tracker \<open>addDose(-5, 1000, 'coffee')\<close> raises nothing and the log,
  empty before, holds the event of \<open>-5\<close> afterwards.
\<close>

theorem addDose_negative_counterexample:
  "caffeineHistory (state (new_CaffeineForge no_config)) = [] \<and>
   addDose (new_CaffeineForge no_config) (Fin (- 5)) (Some (ANumber (Fin 1000))) (Some ''coffee'') 2000
     = (Inr \<lparr>ev_dose = Fin (- 5), ev_time = Date 1000, ev_source = ''coffee'', ev_timestamp = 2000\<rparr>,
        (new_CaffeineForge no_config)
          \<lparr>state := (state (new_CaffeineForge no_config))
             \<lparr>caffeineHistory :=
                [\<lparr>ev_dose = Fin (- 5), ev_time = Date 1000, ev_source = ''coffee'',
                   ev_timestamp = 2000\<rparr>]\<rparr>\<rparr>)"
  by (simp add: addDose_def Let_def new_CaffeineForge_def no_config_def assign_def
      updateRateConstant_def)

text \<open>
  The negative amount is noticed only when it is read back: a query at or after the
  event's time passes it to \<open>calculate\<close>, which rejects it.
\<close>

lemma negative_dose_read_back:
  "fst (getCurrentLevel
          (snd (addDose (new_CaffeineForge no_config) (Fin (- 5)) (Some (ANumber (Fin 1000)))
                  (Some ''coffee'') 2000))
          (Some (ANumber (Fin 1000))) 2000)
     = Inl (InvalidArgument ''Initial value cannot be negative'')"
  by (simp add: addDose_def Let_def new_CaffeineForge_def no_config_def assign_def
      updateRateConstant_def getCurrentLevel_def calculate_def js_ge_def js_sub_def
      VD_PER_KG_def)

lemma addBySource_unknown:
  assumes "map_of SOURCES source = None" "source \<notin> set Object_prototype_keys"
  shows "addBySource f source servings time clock
           = (Inl (UnknownSource (''Unknown caffeine source: '' @ source)), f)"
  using assms by (simp add: addBySource_def SOURCES_get_def)

lemma SOURCES_truthy:
  "map_of SOURCES source = Some unit \<Longrightarrow> truthy_num unit"
  by (auto simp: SOURCES_def truthy_num_def split: if_splits)

lemma addBySource_registered:
  assumes "map_of SOURCES source = Some unit"
  shows "addBySource f source (Some servings) (Some time) clock
           = addDose f (js_mul unit servings) (Some time) (Some source) clock"
  using assms SOURCES_truthy [OF assms] by (simp add: addBySource_def SOURCES_get_def)

text \<open>
  C6. \<open>addBySource\<close> fails with UnknownSource, the tracker untouched, for a name
  that is neither in the table nor a property inherited from \<open>Object.prototype\<close>
  (lemma \<open>addBySource_unknown\<close>), and for a registered name it appends the dose
  \<open>unitAmount * servings\<close> (lemma \<open>addBySource_registered\<close>). For an inherited name
  such as \<open>toString\<close> the lookup yields a function, the test \<open>!dosePerServing\<close>
  lets it through, the product with \<open>servings\<close> is NaN, and an event with dose NaN
  is appended to the log.
\<close>

theorem addBySource_inherited_key:
  "caffeineHistory (state (new_CaffeineForge no_config)) = [] \<and>
   addBySource (new_CaffeineForge no_config) ''toString'' None (Some (ANumber (Fin 1000))) 2000
     = (Inr \<lparr>ev_dose = NaN, ev_time = Date 1000, ev_source = ''toString'', ev_timestamp = 2000\<rparr>,
        (new_CaffeineForge no_config)
          \<lparr>state := (state (new_CaffeineForge no_config))
             \<lparr>caffeineHistory :=
                [\<lparr>ev_dose = NaN, ev_time = Date 1000, ev_source = ''toString'',
                   ev_timestamp = 2000\<rparr>]\<rparr>\<rparr>)"
  by (simp add: addBySource_def SOURCES_get_def SOURCES_def Object_prototype_keys_def
      addDose_def Let_def new_CaffeineForge_def no_config_def assign_def
      updateRateConstant_def)

subsection \<open>Configuration and persistence\<close>

lemma updateRateConstant_idem:
  "updateRateConstant (updateRateConstant f) = updateRateConstant f"
  by (simp add: updateRateConstant_def)

lemma updateRateConstant_fields:
  "bodyWeight (state (updateRateConstant f)) = bodyWeight (state f)"
  "metabolismRate (state (updateRateConstant f)) = metabolismRate (state f)"
  "caffeineHistory (state (updateRateConstant f)) = caffeineHistory (state f)"
  "currentLevel (state (updateRateConstant f)) = currentLevel (state f)"
  "volumeDistribution (updateRateConstant f) = volumeDistribution f"
  by (simp_all add: updateRateConstant_def)

lemma updateRateConstant_volume:
  "updateRateConstant (f\<lparr>volumeDistribution := v\<rparr>) = (updateRateConstant f)\<lparr>volumeDistribution := v\<rparr>"
  by (simp add: updateRateConstant_def)

lemma updateRateConstant_cong:
  assumes "metabolismRate (state g) = metabolismRate (state f)"
    and "rateConstant (state g) = rateConstant (state f)"
    and "halfLife (state g) = halfLife (state f)"
    and "updateRateConstant f = f"
  shows "updateRateConstant g = g"
proof -
  have "state (updateRateConstant f) = state f" using assms(4) by simp
  then have "rateConstant (state (updateRateConstant f)) = rateConstant (state f)"
    and "halfLife (state (updateRateConstant f)) = halfLife (state f)" by simp_all
  then have r: "rateConstant (state (updateRateConstant g)) = rateConstant (state g)"
    and h: "halfLife (state (updateRateConstant g)) = halfLife (state g)"
    using assms(1-3) by (simp_all add: updateRateConstant_def split: if_splits)
  have "state (updateRateConstant g) = state g"
    using r h by (simp add: updateRateConstant_def split: if_splits)
  then show ?thesis
    by (simp add: updateRateConstant_def split: if_splits)
qed

lemma updateRateConstant_table:
  "rateConstant (state (updateRateConstant f)) =
     (if metabolismRate (state f) = ''fast'' then RATE_FAST
      else if metabolismRate (state f) = ''slow'' then RATE_SLOW else RATE_TYPICAL)"
  "halfLife (state (updateRateConstant f)) =
     (if metabolismRate (state f) = ''fast'' then HALF_LIFE_MIN
      else if metabolismRate (state f) = ''slow'' then HALF_LIFE_MAX else HALF_LIFE_TYPICAL)"
  by (simp_all add: updateRateConstant_def)

lemma updateRateConstant_fixed_iff:
  "updateRateConstant f = f \<longleftrightarrow>
     rateConstant (state f) =
       (if metabolismRate (state f) = ''fast'' then RATE_FAST
        else if metabolismRate (state f) = ''slow'' then RATE_SLOW else RATE_TYPICAL) \<and>
     halfLife (state f) =
       (if metabolismRate (state f) = ''fast'' then HALF_LIFE_MIN
        else if metabolismRate (state f) = ''slow'' then HALF_LIFE_MAX else HALF_LIFE_TYPICAL)"
proof
  assume "updateRateConstant f = f"
  then have "rateConstant (state (updateRateConstant f)) = rateConstant (state f)"
    and "halfLife (state (updateRateConstant f)) = halfLife (state f)"
    by simp_all
  then show "rateConstant (state f) =
       (if metabolismRate (state f) = ''fast'' then RATE_FAST
        else if metabolismRate (state f) = ''slow'' then RATE_SLOW else RATE_TYPICAL) \<and>
     halfLife (state f) =
       (if metabolismRate (state f) = ''fast'' then HALF_LIFE_MIN
        else if metabolismRate (state f) = ''slow'' then HALF_LIFE_MAX else HALF_LIFE_TYPICAL)"
    by (simp only: updateRateConstant_table)
next
  assume a: "rateConstant (state f) =
       (if metabolismRate (state f) = ''fast'' then RATE_FAST
        else if metabolismRate (state f) = ''slow'' then RATE_SLOW else RATE_TYPICAL) \<and>
     halfLife (state f) =
       (if metabolismRate (state f) = ''fast'' then HALF_LIFE_MIN
        else if metabolismRate (state f) = ''slow'' then HALF_LIFE_MAX else HALF_LIFE_TYPICAL)"
  have r: "(state f)\<lparr>rateConstant := rateConstant (state f), halfLife := halfLife (state f)\<rparr>
      = state f"
    by simp
  have "(state f)\<lparr>rateConstant :=
          (if metabolismRate (state f) = ''fast'' then RATE_FAST
           else if metabolismRate (state f) = ''slow'' then RATE_SLOW else RATE_TYPICAL),
        halfLife :=
          (if metabolismRate (state f) = ''fast'' then HALF_LIFE_MIN
           else if metabolismRate (state f) = ''slow'' then HALF_LIFE_MAX
           else HALF_LIFE_TYPICAL)\<rparr> = state f"
    using a r by simp
  then show "updateRateConstant f = f"
    by (simp add: updateRateConstant_def split: if_splits)
qed

lemma derived_consistent_iff:
  "derived_consistent f \<longleftrightarrow>
     updateRateConstant f = f \<and>
     volumeDistribution f = js_mul (bodyWeight (state f)) VD_PER_KG"
  by (simp only: derived_consistent_def updateRateConstant_fixed_iff conj_assoc)

lemma new_CaffeineForge_consistent: "derived_consistent (new_CaffeineForge c)"
  by (simp add: derived_consistent_iff new_CaffeineForge_def Let_def updateRateConstant_volume
      updateRateConstant_idem updateRateConstant_fields)

lemma updateConfig_consistent:
  assumes "derived_consistent f"
    and "\<forall>w. cfg_bodyWeight c = Some w \<longrightarrow> truthy_num w"
    and "cfg_metabolismRate c \<noteq> Some []"
    and "cfg_metabolismRate c = None \<longrightarrow> cfg_rateConstant c = None \<and> cfg_halfLife c = None"
  shows "derived_consistent (updateConfig f c)"
proof -
  define f1 where "f1 = f\<lparr>state := assign (state f) c\<rparr>"
  define f2 where "f2 = (case cfg_bodyWeight c of
                  Some w \<Rightarrow> if truthy_num w
                            then f1\<lparr>volumeDistribution := js_mul w VD_PER_KG\<rparr> else f1
                | None \<Rightarrow> f1)"
  have uc: "updateConfig f c = (case cfg_metabolismRate c of
           Some m \<Rightarrow> if m \<noteq> [] then updateRateConstant f2 else f2
         | None \<Rightarrow> f2)"
    by (simp add: updateConfig_def f1_def f2_def Let_def split: option.split)
  have st2: "state f2 = assign (state f) c"
    by (simp add: f2_def f1_def split: option.split)
  have vd2: "volumeDistribution f2 = js_mul (bodyWeight (state f2)) VD_PER_KG"
  proof (cases "cfg_bodyWeight c")
    case None
    then show ?thesis
      using assms(1) by (simp add: f2_def f1_def assign_def derived_consistent_iff)
  next
    case (Some w)
    then show ?thesis
      using assms(2) by (simp add: f2_def f1_def assign_def)
  qed
  show ?thesis
  proof (cases "cfg_metabolismRate c")
    case None
    with assms(4) have n: "cfg_rateConstant c = None" "cfg_halfLife c = None" by simp_all
    have "updateRateConstant f2 = f2"
    proof (rule updateRateConstant_cong [of _ f])
      show "metabolismRate (state f2) = metabolismRate (state f)"
        by (simp add: st2 assign_def None)
      show "rateConstant (state f2) = rateConstant (state f)"
        by (simp add: st2 assign_def n)
      show "halfLife (state f2) = halfLife (state f)"
        by (simp add: st2 assign_def n)
      show "updateRateConstant f = f"
        using assms(1) by (simp add: derived_consistent_iff)
    qed
    then show ?thesis
      using vd2 None by (simp add: uc derived_consistent_iff)
  next
    case (Some m)
    with assms(3) have "m \<noteq> []" by simp
    then have "updateConfig f c = updateRateConstant f2"
      using Some by (simp add: uc)
    then show ?thesis
      using vd2 by (simp add: derived_consistent_iff updateRateConstant_idem updateRateConstant_fields)
  qed
qed

text \<open>
  C7. \<open>updateConfig\<close> does not leave the derived fields consistent after every
  call. An update keeps them consistent when its body weight, if given, is truthy and
  its profile, if given, is non-empty (and it does not overwrite the rate constant or
  half-life directly): lemma \<open>updateConfig_consistent\<close>. A body weight of 0 is
  merged into the state, but the guard \<open>if (config.bodyWeight)\<close> reads it as absent
  and the volume is not recomputed: on a default tracker the weight becomes 0 while
  the volume stays \<open>70 * 0.6 = 42\<close>.
\<close>

theorem updateConfig_zero_weight_stale:
  "derived_consistent (new_CaffeineForge no_config) \<and>
   bodyWeight (state (updateConfig (new_CaffeineForge no_config)
                        (no_config\<lparr>cfg_bodyWeight := Some (Fin 0)\<rparr>))) = Fin 0 \<and>
   volumeDistribution (updateConfig (new_CaffeineForge no_config)
                         (no_config\<lparr>cfg_bodyWeight := Some (Fin 0)\<rparr>)) = Fin 42 \<and>
   \<not> derived_consistent (updateConfig (new_CaffeineForge no_config)
                            (no_config\<lparr>cfg_bodyWeight := Some (Fin 0)\<rparr>))"
  by (simp add: derived_consistent_iff updateConfig_def new_CaffeineForge_def no_config_def
      assign_def updateRateConstant_def truthy_num_def Let_def VD_PER_KG_def)

text \<open>
  C9. \<open>importState\<close> on a blob whose version tag is not \<open>'1.0'\<close> (or is missing)
  returns the tracker unchanged: configuration, event log and derived fields. On a
  blob tagged \<open>'1.0'\<close> it merges the saved fields over the state; every saved body
  weight, profile, log and cached level is the one restored. The derived fields are
  then recomputed, whatever the blob or the tracker held for them: the rate constant
  and half-life are 0.3466 and 2 for the resulting profile \<open>'fast'\<close>, 0.0693 and 10
  for \<open>'slow'\<close>, 0.1386 and 5 for any other, and the volume is 0.6 times the
  resulting body weight; so the result is consistent. Importing what a consistent
  tracker exported gives that tracker back. Nothing in between is ever returned.
\<close>

theorem importState_version_gate:
  "(version b \<noteq> Some ''1.0'' \<longrightarrow> importState f b = f) \<and>
   (version b = Some ''1.0'' \<longrightarrow>
      importState f b
        = (updateRateConstant (f\<lparr>state := assign (state f) (saved b)\<rparr>))
            \<lparr>volumeDistribution :=
               js_mul (bodyWeight (assign (state f) (saved b))) VD_PER_KG\<rparr> \<and>
      bodyWeight (state (importState f b))
        = (case cfg_bodyWeight (saved b) of None \<Rightarrow> bodyWeight (state f) | Some v \<Rightarrow> v) \<and>
      metabolismRate (state (importState f b))
        = (case cfg_metabolismRate (saved b) of None \<Rightarrow> metabolismRate (state f) | Some v \<Rightarrow> v) \<and>
      caffeineHistory (state (importState f b))
        = (case cfg_caffeineHistory (saved b) of None \<Rightarrow> caffeineHistory (state f) | Some v \<Rightarrow> v) \<and>
      currentLevel (state (importState f b))
        = (case cfg_currentLevel (saved b) of None \<Rightarrow> currentLevel (state f) | Some v \<Rightarrow> v) \<and>
      derived_consistent (importState f b) \<and>
      rateConstant (state (importState f b))
        = (if metabolismRate (state (importState f b)) = ''fast'' then Fin (3466 / 10000)
           else if metabolismRate (state (importState f b)) = ''slow'' then Fin (693 / 10000)
           else Fin (1386 / 10000)) \<and>
      halfLife (state (importState f b))
        = (if metabolismRate (state (importState f b)) = ''fast'' then Fin 2
           else if metabolismRate (state (importState f b)) = ''slow'' then Fin 10
           else Fin 5) \<and>
      volumeDistribution (importState f b)
        = js_mul (bodyWeight (state (importState f b))) (Fin (6 / 10))) \<and>
   (derived_consistent g \<longrightarrow> importState f (exportState g clock) = g)"
proof (intro conjI impI)
  assume "version b \<noteq> Some ''1.0''"
  then show "importState f b = f" by (simp add: importState_def)
next
  assume v: "version b = Some ''1.0''"
  show eq: "importState f b
        = (updateRateConstant (f\<lparr>state := assign (state f) (saved b)\<rparr>))
            \<lparr>volumeDistribution :=
               js_mul (bodyWeight (assign (state f) (saved b))) VD_PER_KG\<rparr>"
    using v by (simp add: importState_def Let_def updateRateConstant_fields)
  show "bodyWeight (state (importState f b))
        = (case cfg_bodyWeight (saved b) of None \<Rightarrow> bodyWeight (state f) | Some v \<Rightarrow> v)"
    by (simp add: eq updateRateConstant_fields assign_def)
  show "metabolismRate (state (importState f b))
        = (case cfg_metabolismRate (saved b) of None \<Rightarrow> metabolismRate (state f) | Some v \<Rightarrow> v)"
    by (simp add: eq updateRateConstant_fields assign_def)
  show "caffeineHistory (state (importState f b))
        = (case cfg_caffeineHistory (saved b) of None \<Rightarrow> caffeineHistory (state f) | Some v \<Rightarrow> v)"
    by (simp add: eq updateRateConstant_fields assign_def)
  show "currentLevel (state (importState f b))
        = (case cfg_currentLevel (saved b) of None \<Rightarrow> currentLevel (state f) | Some v \<Rightarrow> v)"
    by (simp add: eq updateRateConstant_fields assign_def)
  show dc: "derived_consistent (importState f b)"
    by (simp add: eq derived_consistent_iff updateRateConstant_volume updateRateConstant_idem
        updateRateConstant_fields)
  show "rateConstant (state (importState f b))
        = (if metabolismRate (state (importState f b)) = ''fast'' then Fin (3466 / 10000)
           else if metabolismRate (state (importState f b)) = ''slow'' then Fin (693 / 10000)
           else Fin (1386 / 10000))"
    using dc by (simp add: derived_consistent_def RATE_FAST_def RATE_SLOW_def RATE_TYPICAL_def)
  show "halfLife (state (importState f b))
        = (if metabolismRate (state (importState f b)) = ''fast'' then Fin 2
           else if metabolismRate (state (importState f b)) = ''slow'' then Fin 10
           else Fin 5)"
    using dc by (simp add: derived_consistent_def HALF_LIFE_MIN_def HALF_LIFE_MAX_def
        HALF_LIFE_TYPICAL_def)
  show "volumeDistribution (importState f b)
        = js_mul (bodyWeight (state (importState f b))) (Fin (6 / 10))"
    using dc by (simp add: derived_consistent_def VD_PER_KG_def)
next
  assume c: "derived_consistent g"
  have s: "assign (state f) (saved (exportState g clock)) = state g"
    by (simp add: assign_def exportState_def)
  have "f\<lparr>state := state g\<rparr> = g\<lparr>volumeDistribution := volumeDistribution f\<rparr>"
    by simp
  then have "updateRateConstant (f\<lparr>state := state g\<rparr>)
      = (updateRateConstant g)\<lparr>volumeDistribution := volumeDistribution f\<rparr>"
    by (simp only: updateRateConstant_volume)
  then have "updateRateConstant (f\<lparr>state := state g\<rparr>) = g\<lparr>volumeDistribution := volumeDistribution f\<rparr>"
    using c by (simp add: derived_consistent_iff)
  moreover have v: "version (exportState g clock) = Some ''1.0''"
    by (simp add: exportState_def)
  ultimately show "importState f (exportState g clock) = g"
    using c by (simp add: importState_def Let_def s derived_consistent_iff)
qed

theorem importState_version_gate_witness:
  "importState (new_CaffeineForge no_config)
     \<lparr>version = Some ''2.0'', saved = no_config\<lparr>cfg_bodyWeight := Some (Fin 80)\<rparr>, timestamp = 0\<rparr>
     = new_CaffeineForge no_config \<and>
   bodyWeight (state (importState (new_CaffeineForge no_config)
     \<lparr>version = Some ''1.0'', saved = no_config\<lparr>cfg_bodyWeight := Some (Fin 80)\<rparr>,
        timestamp = 0\<rparr>)) = Fin 80 \<and>
   volumeDistribution (importState (new_CaffeineForge no_config)
     \<lparr>version = Some ''1.0'', saved = no_config\<lparr>cfg_bodyWeight := Some (Fin 80)\<rparr>,
        timestamp = 0\<rparr>) = Fin 48 \<and>
   rateConstant (state (importState (new_CaffeineForge no_config)
     \<lparr>version = Some ''1.0'',
        saved = no_config\<lparr>cfg_metabolismRate := Some ''slow'', cfg_rateConstant := Some (Fin 5)\<rparr>,
        timestamp = 0\<rparr>)) = Fin (693 / 10000) \<and>
   halfLife (state (importState (new_CaffeineForge no_config)
     \<lparr>version = Some ''1.0'',
        saved = no_config\<lparr>cfg_metabolismRate := Some ''slow'', cfg_rateConstant := Some (Fin 5)\<rparr>,
        timestamp = 0\<rparr>)) = Fin 10 \<and>
   rateConstant (state (importState (new_CaffeineForge no_config)
     \<lparr>version = Some ''1.0'', saved = no_config\<lparr>cfg_metabolismRate := Some ''fast''\<rparr>,
        timestamp = 0\<rparr>)) = Fin (3466 / 10000) \<and>
   importState (new_CaffeineForge no_config)
     (exportState (new_CaffeineForge (no_config\<lparr>cfg_bodyWeight := Some (Fin 80)\<rparr>)) 0)
     = new_CaffeineForge (no_config\<lparr>cfg_bodyWeight := Some (Fin 80)\<rparr>)"
proof -
  let ?f = "new_CaffeineForge no_config"
  let ?c = "no_config\<lparr>cfg_bodyWeight := Some (Fin 80)\<rparr>"
  let ?old = "\<lparr>version = Some ''2.0'', saved = ?c, timestamp = 0\<rparr>"
  let ?new = "\<lparr>version = Some ''1.0'', saved = ?c, timestamp = 0\<rparr>"
  let ?slow = "\<lparr>version = Some ''1.0'',
        saved = no_config\<lparr>cfg_metabolismRate := Some ''slow'', cfg_rateConstant := Some (Fin 5)\<rparr>,
        timestamp = 0\<rparr>"
  let ?fast = "\<lparr>version = Some ''1.0'', saved = no_config\<lparr>cfg_metabolismRate := Some ''fast''\<rparr>,
        timestamp = 0\<rparr>"
  have a: "importState ?f ?old = ?f"
    using importState_version_gate [where f = ?f and b = ?old, THEN conjunct1] by simp
  have v: "version ?new = Some ''1.0''" by simp
  note n = importState_version_gate [where f = ?f and b = ?new, THEN conjunct2, THEN conjunct1,
      rule_format, OF v]
  have b: "bodyWeight (state (importState ?f ?new)) = Fin 80"
    using n [THEN conjunct2, THEN conjunct1] by (simp add: no_config_def)
  have d: "volumeDistribution (importState ?f ?new) = Fin 48"
    using n [THEN conjunct2, THEN conjunct2, THEN conjunct2, THEN conjunct2, THEN conjunct2,
        THEN conjunct2, THEN conjunct2, THEN conjunct2] b
    by simp
  have vs: "version ?slow = Some ''1.0''" by simp
  note sl = importState_version_gate [where f = ?f and b = ?slow, THEN conjunct2, THEN conjunct1,
      rule_format, OF vs]
  have ms: "metabolismRate (state (importState ?f ?slow)) = ''slow''"
    using sl [THEN conjunct2, THEN conjunct2, THEN conjunct1] by (simp add: no_config_def)
  have rs: "rateConstant (state (importState ?f ?slow)) = Fin (693 / 10000)"
    using sl [THEN conjunct2, THEN conjunct2, THEN conjunct2, THEN conjunct2, THEN conjunct2,
        THEN conjunct2, THEN conjunct1] ms
    by simp
  have hs: "halfLife (state (importState ?f ?slow)) = Fin 10"
    using sl [THEN conjunct2, THEN conjunct2, THEN conjunct2, THEN conjunct2, THEN conjunct2,
        THEN conjunct2, THEN conjunct2, THEN conjunct1] ms
    by simp
  have vf: "version ?fast = Some ''1.0''" by simp
  note fa = importState_version_gate [where f = ?f and b = ?fast, THEN conjunct2, THEN conjunct1,
      rule_format, OF vf]
  have mf: "metabolismRate (state (importState ?f ?fast)) = ''fast''"
    using fa [THEN conjunct2, THEN conjunct2, THEN conjunct1] by (simp add: no_config_def)
  have rf: "rateConstant (state (importState ?f ?fast)) = Fin (3466 / 10000)"
    using fa [THEN conjunct2, THEN conjunct2, THEN conjunct2, THEN conjunct2, THEN conjunct2,
        THEN conjunct2, THEN conjunct1] mf
    by simp
  have e: "importState ?f (exportState (new_CaffeineForge ?c) 0) = new_CaffeineForge ?c"
    using importState_version_gate [where f = ?f and g = "new_CaffeineForge ?c" and clock = 0,
        THEN conjunct2, THEN conjunct2, rule_format, OF new_CaffeineForge_consistent] .
  from a b d rs hs rf e show ?thesis by simp
qed

subsection \<open>Time until sleep\<close>

lemma getCurrentLevel_cases:
  "(\<exists>e. getCurrentLevel f t clock = (Inl e, f)) \<or>
   (\<exists>level. getCurrentLevel f t clock = (Inr level, f\<lparr>state := (state f)\<lparr>currentLevel := level\<rparr>\<rparr>))"
  by (simp add: getCurrentLevel_def Let_def split: sum.split)

text \<open>
  C10. \<open>getTimeUntilSleep(0, fromTime)\<close> does not take 0 as the threshold: the call
  is the call with no threshold, and the call with threshold 10. So whenever the
  current level is \<open>\<le> 10\<close> it returns \<open>hours = 0\<close> and \<open>canSleepNow = true\<close>, also for
  a level above 0. When the level is not \<open>\<le> 10\<close>, \<open>timeToReach\<close> is entered with
  target 10, never with a target \<open>\<le> 0\<close>: the call fails exactly for a rate
  \<open>\<le> 0\<close> and otherwise returns \<open>ln(level/10)/rate\<close>, which for a finite level and rate
  is finite.
\<close>

theorem getTimeUntilSleep_zero_threshold:
  "getTimeUntilSleep f (Some (Fin 0)) t clock = getTimeUntilSleep f None t clock \<and>
   getTimeUntilSleep f (Some (Fin 0)) t clock = getTimeUntilSleep f (Some (Fin 10)) t clock \<and>
   (fst (getCurrentLevel f (Some (ADate d)) clock) = Inr level \<and> js_le level (Fin 10) \<longrightarrow>
      fst (getTimeUntilSleep f (Some (Fin 0)) (Some d) clock)
        = Inr \<lparr>sl_hours = Fin 0, sl_sleepTime = d, sl_canSleepNow = True,
               sl_currentLevel = level\<rparr>) \<and>
   (fst (getCurrentLevel f (Some (ADate d)) clock) = Inr level \<and> \<not> js_le level (Fin 10) \<longrightarrow>
      (case fst (getTimeUntilSleep f (Some (Fin 0)) (Some d) clock) of
         Inl e \<Rightarrow> js_le (rateConstant (state f)) (Fin 0)
       | Inr r \<Rightarrow> \<not> js_le (rateConstant (state f)) (Fin 0) \<and>
                 sl_hours r = js_div (js_log (js_div level (Fin 10))) (rateConstant (state f)) \<and>
                 \<not> sl_canSleepNow r \<and> sl_currentLevel r = level)) \<and>
   (fst (getCurrentLevel f (Some (ADate d)) clock) = Inr (Fin l) \<and> 10 < l \<and>
    rateConstant (state f) = Fin k \<and> 0 < k \<longrightarrow>
      (\<exists>r. fst (getTimeUntilSleep f (Some (Fin 0)) (Some d) clock) = Inr r \<and>
           sl_hours r = Fin (ln (l / 10) / k) \<and> \<not> sl_canSleepNow r))"
proof (intro conjI impI)
  show "getTimeUntilSleep f (Some (Fin 0)) t clock = getTimeUntilSleep f None t clock"
    by (simp add: getTimeUntilSleep_def truthy_num_def)
  show "getTimeUntilSleep f (Some (Fin 0)) t clock = getTimeUntilSleep f (Some (Fin 10)) t clock"
    by (simp add: getTimeUntilSleep_def truthy_num_def THRESHOLD_SLEEP_def)
next
  assume a: "fst (getCurrentLevel f (Some (ADate d)) clock) = Inr level \<and> js_le level (Fin 10)"
  then have "getCurrentLevel f (Some (ADate d)) clock
      = (Inr level, f\<lparr>state := (state f)\<lparr>currentLevel := level\<rparr>\<rparr>)"
    using getCurrentLevel_cases [of f "Some (ADate d)" clock] by auto
  then show "fst (getTimeUntilSleep f (Some (Fin 0)) (Some d) clock)
        = Inr \<lparr>sl_hours = Fin 0, sl_sleepTime = d, sl_canSleepNow = True,
               sl_currentLevel = level\<rparr>"
    using a by (simp add: getTimeUntilSleep_def truthy_num_def THRESHOLD_SLEEP_def)
next
  assume a: "fst (getCurrentLevel f (Some (ADate d)) clock) = Inr level \<and> \<not> js_le level (Fin 10)"
  then have g: "getCurrentLevel f (Some (ADate d)) clock
      = (Inr level, f\<lparr>state := (state f)\<lparr>currentLevel := level\<rparr>\<rparr>)"
    using getCurrentLevel_cases [of f "Some (ADate d)" clock] by auto
  show "case fst (getTimeUntilSleep f (Some (Fin 0)) (Some d) clock) of
         Inl e \<Rightarrow> js_le (rateConstant (state f)) (Fin 0)
       | Inr r \<Rightarrow> \<not> js_le (rateConstant (state f)) (Fin 0) \<and>
                 sl_hours r = js_div (js_log (js_div level (Fin 10))) (rateConstant (state f)) \<and>
                 \<not> sl_canSleepNow r \<and> sl_currentLevel r = level"
    using a by (simp add: getTimeUntilSleep_def truthy_num_def THRESHOLD_SLEEP_def g
        timeToReach_def js_ge_def)
next
  assume a: "fst (getCurrentLevel f (Some (ADate d)) clock) = Inr (Fin l) \<and> 10 < l \<and>
    rateConstant (state f) = Fin k \<and> 0 < k"
  then have g: "getCurrentLevel f (Some (ADate d)) clock
      = (Inr (Fin l), f\<lparr>state := (state f)\<lparr>currentLevel := Fin l\<rparr>\<rparr>)"
    using getCurrentLevel_cases [of f "Some (ADate d)" clock] by auto
  show "\<exists>r. fst (getTimeUntilSleep f (Some (Fin 0)) (Some d) clock) = Inr r \<and>
           sl_hours r = Fin (ln (l / 10) / k) \<and> \<not> sl_canSleepNow r"
    using a by (simp add: getTimeUntilSleep_def truthy_num_def THRESHOLD_SLEEP_def g
        timeToReach_def js_ge_def)
qed

theorem getTimeUntilSleep_zero_threshold_witness:
  "fst (getTimeUntilSleep
      \<lparr>state = \<lparr>bodyWeight = Fin 70, metabolismRate = ''typical'',
          caffeineHistory =
            [\<lparr>ev_dose = Fin 100, ev_time = Date 0, ev_source = ''coffee'', ev_timestamp = 0\<rparr>],
          currentLevel = Fin 0, rateConstant = Fin (1386 / 10000), halfLife = Fin 5\<rparr>,
        volumeDistribution = Fin 42\<rparr>
      (Some (Fin 0)) (Some (Date 0)) 0)
    = Inr \<lparr>sl_hours = Fin 0, sl_sleepTime = Date 0, sl_canSleepNow = True,
           sl_currentLevel = Fin (100 / 42)\<rparr> \<and>
   js_lt (Fin 0) (Fin (100 / 42)) \<and>
   (\<exists>r. fst (getTimeUntilSleep
      \<lparr>state = \<lparr>bodyWeight = Fin 70, metabolismRate = ''typical'',
          caffeineHistory =
            [\<lparr>ev_dose = Fin 840, ev_time = Date 0, ev_source = ''coffee'', ev_timestamp = 0\<rparr>],
          currentLevel = Fin 0, rateConstant = Fin (1386 / 10000), halfLife = Fin 5\<rparr>,
        volumeDistribution = Fin 42\<rparr>
      (Some (Fin 0)) (Some (Date 0)) 0) = Inr r \<and>
      sl_hours r = Fin (ln 2 / (1386 / 10000)) \<and> \<not> sl_canSleepNow r)"
proof -
  let ?f = "\<lparr>state = \<lparr>bodyWeight = Fin 70, metabolismRate = ''typical'',
          caffeineHistory =
            [\<lparr>ev_dose = Fin 100, ev_time = Date 0, ev_source = ''coffee'', ev_timestamp = 0\<rparr>],
          currentLevel = Fin 0, rateConstant = Fin (1386 / 10000), halfLife = Fin 5\<rparr>,
        volumeDistribution = Fin 42\<rparr>"
  let ?g = "\<lparr>state = \<lparr>bodyWeight = Fin 70, metabolismRate = ''typical'',
          caffeineHistory =
            [\<lparr>ev_dose = Fin 840, ev_time = Date 0, ev_source = ''coffee'', ev_timestamp = 0\<rparr>],
          currentLevel = Fin 0, rateConstant = Fin (1386 / 10000), halfLife = Fin 5\<rparr>,
        volumeDistribution = Fin 42\<rparr>"
  have l: "fst (getCurrentLevel ?f (Some (ADate (Date 0))) 0) = Inr (Fin (100 / 42))"
    by (simp add: getCurrentLevel_def calculate_def js_ge_def js_sub_def)
  have "js_le (Fin (100 / 42)) (Fin 10)" by simp
  with l have low: "fst (getTimeUntilSleep ?f (Some (Fin 0)) (Some (Date 0)) 0)
    = Inr \<lparr>sl_hours = Fin 0, sl_sleepTime = Date 0, sl_canSleepNow = True,
           sl_currentLevel = Fin (100 / 42)\<rparr>"
    using getTimeUntilSleep_zero_threshold [where f = ?f and d = "Date 0" and clock = 0
        and level = "Fin (100 / 42)", THEN conjunct2, THEN conjunct2, THEN conjunct1]
    by simp
  have h: "fst (getCurrentLevel ?g (Some (ADate (Date 0))) 0) = Inr (Fin 20)"
    by (simp add: getCurrentLevel_def calculate_def js_ge_def js_sub_def)
  have high: "\<exists>r. fst (getTimeUntilSleep ?g (Some (Fin 0)) (Some (Date 0)) 0) = Inr r \<and>
      sl_hours r = Fin (ln 2 / (1386 / 10000)) \<and> \<not> sl_canSleepNow r"
    using h getTimeUntilSleep_zero_threshold [where f = ?g and d = "Date 0" and clock = 0
        and l = 20 and k = "1386 / 10000", THEN conjunct2, THEN conjunct2, THEN conjunct2,
        THEN conjunct2]
    by simp
  from low high show ?thesis by simp
qed

lemma getTimeUntilSleep_negative_threshold:
  "fst (getTimeUntilSleep
      \<lparr>state = \<lparr>bodyWeight = Fin 70, metabolismRate = ''typical'',
          caffeineHistory =
            [\<lparr>ev_dose = Fin 100, ev_time = Date 0, ev_source = ''coffee'', ev_timestamp = 0\<rparr>],
          currentLevel = Fin 0, rateConstant = Fin (1386 / 10000), halfLife = Fin 5\<rparr>,
        volumeDistribution = Fin 42\<rparr>
      (Some (Fin (- 1))) (Some (Date 0)) 0)
    = Inr \<lparr>sl_hours = PInf, sl_sleepTime = InvalidDate, sl_canSleepNow = False,
           sl_currentLevel = Fin (100 / 42)\<rparr>"
  by (simp add: getTimeUntilSleep_def getCurrentLevel_def calculate_def js_ge_def js_sub_def
      truthy_num_def timeToReach_def)

subsection \<open>Dosing schedule\<close>

lemma js_add_zero [simp]: "js_add x (Fin 0) = x"
  by (cases x) simp_all

lemma optimizeDosing_loop_returns:
  assumes "optimizeDosing_loop f tc rt md iv d ct s = Some r"
  shows "\<not> (iv = Fin 0 \<and> js_lt ct d)"
proof (rule optimizeDosing_loop.raw_induct
    [where P = "\<lambda>f tc rt md iv d ct s r. \<not> (iv = Fin 0 \<and> js_lt ct d)", OF _ assms])
  fix loop :: "forge \<Rightarrow> jsnum \<Rightarrow> jsnum \<Rightarrow> jsnum \<Rightarrow> jsnum \<Rightarrow> jsnum \<Rightarrow> jsnum \<Rightarrow> dosing list
     \<Rightarrow> dosing list option"
  fix f tc rt md iv d ct s r
  assume IH: "\<And>f tc rt md iv d ct s r. loop f tc rt md iv d ct s = Some r
      \<Longrightarrow> \<not> (iv = Fin 0 \<and> js_lt ct d)"
  assume eq: "(if js_lt ct d
     then let boostDose = js_min (js_mul (js_sub tc rt) (volumeDistribution f)) md
          in loop f tc rt md iv d (js_add ct iv)
               (s @ [\<lparr>ds_time = ct, ds_dose = boostDose, ds_reason = ''Maintenance dose''\<rparr>])
     else Some s) = Some r"
  show "\<not> (iv = Fin 0 \<and> js_lt ct d)"
  proof
    assume a: "iv = Fin 0 \<and> js_lt ct d"
    with eq have "loop f tc rt md (Fin 0) d (js_add ct (Fin 0))
        (s @ [\<lparr>ds_time = ct, ds_dose = js_min (js_mul (js_sub tc rt) (volumeDistribution f)) md,
                ds_reason = ''Maintenance dose''\<rparr>]) = Some r"
      by (simp add: Let_def)
    from IH [OF this] a show False by simp
  qed
qed

lemma optimizeDosing_loop_zero_interval:
  "js_lt ct d \<Longrightarrow> optimizeDosing_loop f tc rt md (Fin 0) d ct s = None"
  using optimizeDosing_loop_returns [of f tc rt md "Fin 0" d ct s]
  by (cases "optimizeDosing_loop f tc rt md (Fin 0) d ct s") auto

lemma optimizeDosing_loop_terminates:
  assumes "0 < iv"
  shows "\<exists>s'. optimizeDosing_loop f tc rt md (Fin iv) (Fin d) (Fin ct) s = Some s'"
proof (induction "nat \<lceil>(d - ct) / iv\<rceil>" arbitrary: ct s)
  case 0
  then have "(d - ct) / iv \<le> 0" by simp
  then have "\<not> ct < d" using assms by (simp add: divide_le_0_iff)
  then show ?case by (subst optimizeDosing_loop.simps) simp
next
  case (Suc n)
  show ?case
  proof (cases "ct < d")
    case False
    then show ?thesis by (subst optimizeDosing_loop.simps) simp
  next
    case True
    have "(d - (ct + iv)) / iv = (d - ct) / iv - 1"
      using assms by (simp add: field_simps)
    then have "nat \<lceil>(d - (ct + iv)) / iv\<rceil> = n"
      using Suc(2) by simp
    from Suc(1) [OF this [symmetric]] show ?thesis
      using True by (subst optimizeDosing_loop.simps) (simp add: Let_def)
  qed
qed

lemma optimizeDosing_returns_iff:
  assumes "volumeDistribution f = Fin V" "0 < V" "rateConstant (state f) = Fin k" "0 < k"
    and "0 < T" "0 < D" "0 < M"
  shows "(\<exists>r. optimizeDosing f (Fin T) (Fin D) (Some (Fin M)) = Some r) \<longleftrightarrow> 7 / 10 * T * V < M"
proof (cases "7 / 10 * T * V < M")
  case True
  define c where "c = min (T * V) M / V"
  have dose: "js_min (Fin (T * V)) (Fin M) = Fin (min (T * V) M)"
    by (simp add: js_min_def min_def)
  have conc: "js_div (Fin (min (T * V) M)) (Fin V) = Fin c"
    using assms(2) by (simp add: c_def)
  have tv: "0 < T * V" using assms(2,5) by simp
  then have "7 / 10 * T * V < T * V" by simp
  with True have h: "7 / 10 * T * V < min (T * V) M"
    by (simp only: min_less_iff_conj)
  have e: "T * (7 / 10) * V = 7 / 10 * T * V" by simp
  have lt: "T * (7 / 10) < c"
    unfolding c_def pos_less_divide_eq [OF assms(2)] e by (fact h)
  have thr: "0 < T * (7 / 10)" using assms(5) by simp
  have "1 < c / (T * (7 / 10))" using lt thr by simp
  then have "0 < ln (c / (T * (7 / 10))) / k" using assms(4) by simp
  then obtain iv where iv: "0 < iv" "ln (c / (T * (7 / 10))) / k = iv" by blast
  have ttr: "timeToReach (Fin c) (Fin (T * (7 / 10))) (Fin k) = Inr (Fin iv)"
    using lt thr assms(4) iv by (simp add: timeToReach_def js_ge_def not_le)
  obtain s' where "optimizeDosing_loop f (Fin T) (Fin (T * (7 / 10))) (Fin M) (Fin iv) (Fin D) (Fin iv)
      [\<lparr>ds_time = Fin 0, ds_dose = Fin (min (T * V) M),
         ds_reason = ''Initial dose to reach target''\<rparr>] = Some s'"
    using optimizeDosing_loop_terminates [OF iv(1)] by blast
  then have "optimizeDosing f (Fin T) (Fin D) (Some (Fin M)) = Some (Inr s')"
    unfolding optimizeDosing_def Let_def option.case assms(1,3) js_mul.simps dose conc
    by (simp only: ttr sum.case option.map)
  with True show ?thesis by blast
next
  case False
  define c where "c = min (T * V) M / V"
  have dose: "js_min (Fin (T * V)) (Fin M) = Fin (min (T * V) M)"
    by (simp add: js_min_def min_def)
  have conc: "js_div (Fin (min (T * V) M)) (Fin V) = Fin c"
    using assms(2) by (simp add: c_def)
  have "M \<le> 7 / 10 * T * V" using False by simp
  then have h: "min (T * V) M \<le> 7 / 10 * T * V"
    by (rule min.coboundedI2)
  have e: "T * (7 / 10) * V = 7 / 10 * T * V" by simp
  have le: "c \<le> T * (7 / 10)"
    unfolding c_def pos_divide_le_eq [OF assms(2)] e by (fact h)
  have ttr: "timeToReach (Fin c) (Fin (T * (7 / 10))) (Fin k) = Inr (Fin 0)"
    using le by (simp add: timeToReach_def js_ge_def)
  have "optimizeDosing_loop f (Fin T) (Fin (T * (7 / 10))) (Fin M) (Fin 0) (Fin D) (Fin 0)
      [\<lparr>ds_time = Fin 0, ds_dose = Fin (min (T * V) M),
         ds_reason = ''Initial dose to reach target''\<rparr>] = None"
    by (rule optimizeDosing_loop_zero_interval) (use assms(6) in simp)
  then have "optimizeDosing f (Fin T) (Fin D) (Some (Fin M)) = None"
    unfolding optimizeDosing_def Let_def option.case assms(1,3) js_mul.simps dose conc
    by (simp only: ttr sum.case option.map)
  with False show ?thesis by simp
qed

text \<open>
  C4. \<open>optimizeDosing\<close> does not complete on every positive input. With a rate
  \<open>> 0\<close> and a positive finite volume it returns exactly when
  \<open>maxDose > 0.7 * targetLevel * volume\<close> (lemma \<open>optimizeDosing_returns_iff\<close>).
  When \<open>maxDose\<close> caps the initial dose at or below the redose threshold,
  \<open>timeToReach\<close> answers 0, the interval added to \<open>currentTime\<close> is 0, and the
  loop never ends. The call of the repository's own test,
  \<open>optimizeDosing(100, 8, 200)\<close> on a default tracker, is such a call.
\<close>

theorem optimizeDosing_diverges:
  "optimizeDosing (new_CaffeineForge no_config) (Fin 100) (Fin 8) (Some (Fin 200)) = None"
proof -
  have z: "optimizeDosing_loop f tc rt md (Fin 0) (Fin 8) (Fin 0) s = None" for f tc rt md s
    by (rule optimizeDosing_loop_zero_interval) simp
  show ?thesis
    by (simp add: optimizeDosing_def new_CaffeineForge_def no_config_def assign_def
        updateRateConstant_def Let_def js_min_def timeToReach_def js_ge_def z
        VD_PER_KG_def RATE_TYPICAL_def HALF_LIFE_TYPICAL_def)
qed

end
